theory Spec2Isabelle
  imports Complex_Main "HOL-Library.AList"
begin

section \<open>Host values\<close>

text \<open>
  The deserializer of \<^verbatim>\<open>src/typedjson/deserializer.ts\<close> walks untyped JavaScript
  values and dispatches on constructor functions. Constructors are modelled by identity:
  the built-in ones the source compares against, and user classes, which carry their name
  and the constructor they extend (\<open>CObject\<close> for a class without an \<^verbatim>\<open>extends\<close>
  clause), so that the prototype chain of a class is finite by construction.
\<close>

datatype ctor =
    CObject | CFunction | CNumber | CString | CBoolean | CDate
  | CArray | CSet | CMap | CArrayBuffer | CDataView
  | CFloat32Array | CFloat64Array
  | CInt8Array | CUint8Array | CUint8ClampedArray
  | CInt16Array | CUint16Array | CInt32Array | CUint32Array
  | CClass string ctor

text \<open>
  Numbers: the special values of the host's double type, and the finite ones as the
  rationals they denote. The engine only tests numbers (\<^verbatim>\<open>> 0\<close>, \<^verbatim>\<open>isNaN\<close>) and
  truncates them (\<^verbatim>\<open>~~value\<close>); it does no floating-point arithmetic.
\<close>

datatype jsnum = NaN | PosInfinity | NegInfinity | Finite rat

text \<open>
  Values. An object is the constructor whose prototype it has (Object or a user class
  that extends no built-in container) and its own enumerable properties in
  \<^verbatim>\<open>Object.keys\<close> order. \<open>VDate x\<close> is \<^verbatim>\<open>new Date(x)\<close>: the instant is whatever the
  host's Date constructor makes of \<open>x\<close>. \<open>VTyped k ns\<close> is a typed array of class \<open>k\<close>
  with the elements \<open>ns\<close>, as they are stored and read back (see \<open>newTypedArray\<close> for
  \<^verbatim>\<open>new k(source)\<close>). \<open>VArrayBuffer\<close> and \<open>VDataView\<close> hold the 16-bit units written
  into the buffer. A set is its elements and a map its entries, both in insertion order.
  Function-valued properties are not values of the model: methods live on classes (see
  \<open>runtime\<close> below).
\<close>

datatype jsval =
    VUndefined | VNull | VBool bool | VNum jsnum | VStr string
  | VArr "jsval list"
  | VObj ctor "(string \<times> jsval) list"
  | VDate jsval
  | VTyped ctor "jsnum list"
  | VArrayBuffer "nat list"
  | VDataView "nat list"
  | VSet "jsval list"
  | VMap "(jsval \<times> jsval) list"

text \<open>\<^verbatim>\<open>nameof(fn)\<close> of helpers: the \<^verbatim>\<open>name\<close> of a constructor function.\<close>

fun nameof :: "ctor \<Rightarrow> string" where
  "nameof (CClass n p) = n"
| "nameof CObject = ''Object''"
| "nameof CFunction = ''Function''"
| "nameof CNumber = ''Number''"
| "nameof CString = ''String''"
| "nameof CBoolean = ''Boolean''"
| "nameof CDate = ''Date''"
| "nameof CArray = ''Array''"
| "nameof CSet = ''Set''"
| "nameof CMap = ''Map''"
| "nameof CArrayBuffer = ''ArrayBuffer''"
| "nameof CDataView = ''DataView''"
| "nameof CFloat32Array = ''Float32Array''"
| "nameof CFloat64Array = ''Float64Array''"
| "nameof CInt8Array = ''Int8Array''"
| "nameof CUint8Array = ''Uint8Array''"
| "nameof CUint8ClampedArray = ''Uint8ClampedArray''"
| "nameof CInt16Array = ''Int16Array''"
| "nameof CUint16Array = ''Uint16Array''"
| "nameof CInt32Array = ''Int32Array''"
| "nameof CUint32Array = ''Uint32Array''"

text \<open>
  The constructors on the prototype chain of \<^verbatim>\<open>A.prototype\<close>, nearest first: the
  constructors \<open>B\<close> for which \<^verbatim>\<open>A.prototype instanceof B\<close> holds.
\<close>

fun ancestors :: "ctor \<Rightarrow> ctor list" where
  "ancestors (CClass n p) = p # ancestors p"
| "ancestors CObject = []"
| "ancestors c = [CObject]"

text \<open>\<^verbatim>\<open>isSubtypeOf(A, B)\<close> of helpers: \<^verbatim>\<open>A === B || A.prototype instanceof B\<close>.\<close>

definition isSubtypeOf :: "ctor \<Rightarrow> ctor \<Rightarrow> bool" where
  "isSubtypeOf A B \<longleftrightarrow> A = B \<or> B \<in> set (ancestors A)"

text \<open>\<^verbatim>\<open>isValueDefined(value)\<close> of helpers: neither undefined nor null.\<close>

definition isValueDefined :: "jsval \<Rightarrow> bool" where
  "isValueDefined v \<longleftrightarrow> \<not> (v = VUndefined \<or> v = VNull)"

text \<open>The host's truthiness, \<^verbatim>\<open>typeof v === "object"\<close> and \<^verbatim>\<open>v instanceof Array\<close>.\<close>

fun truthy :: "jsval \<Rightarrow> bool" where
  "truthy VUndefined = False"
| "truthy VNull = False"
| "truthy (VBool b) = b"
| "truthy (VNum n) = (n \<noteq> NaN \<and> n \<noteq> Finite 0)"
| "truthy (VStr s) = (s \<noteq> [])"
| "truthy v = True"

fun typeofObject :: "jsval \<Rightarrow> bool" where
  "typeofObject VUndefined = False"
| "typeofObject (VBool b) = False"
| "typeofObject (VNum n) = False"
| "typeofObject (VStr s) = False"
| "typeofObject v = True"

fun isArray :: "jsval \<Rightarrow> bool" where
  "isArray (VArr xs) = True"
| "isArray v = False"

fun isString :: "jsval \<Rightarrow> bool" where
  "isString (VStr s) = True"
| "isString v = False"

text \<open>\<^verbatim>\<open>typeof v === "number" && v > 0\<close>; a comparison with NaN is false.\<close>

fun isPositiveNumber :: "jsval \<Rightarrow> bool" where
  "isPositiveNumber (VNum (Finite q)) = (0 < q)"
| "isPositiveNumber (VNum PosInfinity) = True"
| "isPositiveNumber v = False"

text \<open>Primitive values are compared by value in a Set or Map, objects by reference.\<close>

fun isPrimitive :: "jsval \<Rightarrow> bool" where
  "isPrimitive VUndefined = True"
| "isPrimitive VNull = True"
| "isPrimitive (VBool b) = True"
| "isPrimitive (VNum n) = True"
| "isPrimitive (VStr s) = True"
| "isPrimitive v = False"

section \<open>Errors\<close>

text \<open>
  Debug labels (\<^verbatim>\<open>objectName\<close>, \<^verbatim>\<open>memberName\<close>) are kept structured instead of being
  rendered into text: \<open>ElemOf m\<close> is \<^verbatim>\<open>${m}[]\<close>, \<open>IndexOf m i\<close> is \<^verbatim>\<open>${m}[${i}]\<close>,
  \<open>KeyOf m k\<close> is \<^verbatim>\<open>${m}[${k}]\<close> and \<open>MemberOf c p\<close> is \<^verbatim>\<open>${c}.${p}\<close>.
\<close>

datatype label =
    Named string
  | ElemOf label
  | IndexOf label nat
  | KeyOf label jsval
  | MemberOf string string

text \<open>
  Every error the source creates is a \<^verbatim>\<open>TypeError\<close>; the constructors keep apart the
  places that create them, under the names the specification uses, with the parts their
  messages are built from:
  \<^item> \<open>NotAnObject\<close>: "'sourceObject' must be a defined object" of convertAsObject;
  \<^item> \<open>MissingConverter\<close>: "no constructor nor deserlization function to use";
  \<^item> \<open>MissingRequiredMember\<close>: "Missing required member";
  \<^item> \<open>InvalidInitializerResult\<close>: the two errors on the result of the initializer
    callback, with the name of the constructor it returned (\<open>None\<close> for undefined/null)
    and the expected class name;
  \<^item> \<open>InvalidHook\<close>: "onDeserialized callback ... is not a method";
  \<^item> \<open>TypeMismatch\<close>: \<^verbatim>\<open>_throwTypeMismatchError(targetType, expectedSourceType,
    actualSourceType, memberName)\<close>;
  \<^item> \<open>UnexpectedType\<close>: \<^verbatim>\<open>_makeTypeErrorMessage(expectedType, actualType, memberName)\<close>,
    with the name of the expected constructor and of the constructor the value inherits
    (the text of the message shows an own property \<^verbatim>\<open>constructor\<close> of the value instead,
    when it has one);
  \<^item> \<open>MissingElementConstructor\<close>, \<open>MissingKeyConstructor\<close>: the descriptor errors
    of the container conversions;
  \<^item> \<open>InvalidCallback\<close>: a setter refusing its argument;
  \<^item> \<open>NotAFunction\<close>, \<open>NullDereference\<close>: the host's own TypeErrors for calling a
    non-function and for reading a property of undefined or null;
  \<^item> \<open>Thrown\<close>: whatever a user callback raises.
\<close>

datatype error =
    NotAnObject label
  | MissingConverter label
  | MissingRequiredMember label
  | InvalidInitializerResult label "string option" string
  | InvalidHook string string
  | TypeMismatch label string string string
  | UnexpectedType label string string
  | MissingElementConstructor label string
  | MissingKeyConstructor label
  | InvalidCallback string
  | NotAFunction string
  | NullDereference string
  | Thrown jsval

section \<open>Property access\<close>

text \<open>Decimal rendering of an array index, for the keys of an array.\<close>

fun indexKey :: "nat \<Rightarrow> string" where
  "indexKey n =
     (if n < 10 then [char_of (48 + n)]
      else indexKey (n div 10) @ [char_of (48 + n mod 10)])"

declare indexKey.simps [simp del]

text \<open>
  The own enumerable properties of a value, in \<^verbatim>\<open>Object.keys\<close> order: those of an
  object, and the indices of an array or typed array.
\<close>

fun ownProps :: "jsval \<Rightarrow> (string \<times> jsval) list" where
  "ownProps (VObj c ps) = ps"
| "ownProps (VArr xs) = zip (map indexKey [0..<length xs]) xs"
| "ownProps (VTyped k ns) = zip (map indexKey [0..<length ns]) (map VNum ns)"
| "ownProps v = []"

text \<open>
  The properties that are not own and enumerable, as far as they are values: the
  \<^verbatim>\<open>length\<close> of an array or typed array. Everything else reads as undefined; the
  methods that objects inherit are in the runtime.
\<close>

fun builtinProp :: "jsval \<Rightarrow> string \<Rightarrow> jsval" where
  "builtinProp (VArr xs) k =
     (if k = ''length'' then VNum (Finite (of_nat (length xs))) else VUndefined)"
| "builtinProp (VTyped c ns) k =
     (if k = ''length'' then VNum (Finite (of_nat (length ns))) else VUndefined)"
| "builtinProp v k = VUndefined"

text \<open>
  \<^verbatim>\<open>v[key]\<close> on an object, array or typed array, and on a primitive for a key that is
  neither an index nor \<^verbatim>\<open>length\<close>: reading a property of undefined or null raises; a
  property that is not there reads as undefined.
\<close>

definition getProp :: "jsval \<Rightarrow> string \<Rightarrow> error + jsval" where
  "getProp v k =
     (if \<not> isValueDefined v then Inl (NullDereference k)
      else case map_of (ownProps v) k of Some x \<Rightarrow> Inr x | None \<Rightarrow> Inr (builtinProp v k))"

text \<open>
  The constructor a value inherits from its prototype. \<^verbatim>\<open>v.constructor\<close> reads it unless
  \<open>v\<close> has an own property of that name (see \<open>ownConstructor\<close>); \<^verbatim>\<open>instanceof\<close> follows
  the prototype and never looks at an own property.
\<close>

fun constructorOf :: "jsval \<Rightarrow> error + ctor" where
  "constructorOf VUndefined = Inl (NullDereference ''constructor'')"
| "constructorOf VNull = Inl (NullDereference ''constructor'')"
| "constructorOf (VBool b) = Inr CBoolean"
| "constructorOf (VNum n) = Inr CNumber"
| "constructorOf (VStr s) = Inr CString"
| "constructorOf (VArr xs) = Inr CArray"
| "constructorOf (VObj c ps) = Inr c"
| "constructorOf (VDate x) = Inr CDate"
| "constructorOf (VTyped k ns) = Inr k"
| "constructorOf (VArrayBuffer b) = Inr CArrayBuffer"
| "constructorOf (VDataView b) = Inr CDataView"
| "constructorOf (VSet xs) = Inr CSet"
| "constructorOf (VMap kvs) = Inr CMap"

text \<open>\<^verbatim>\<open>v instanceof C\<close>: false for primitives, the prototype chain for objects.\<close>

definition instanceOf :: "jsval \<Rightarrow> ctor \<Rightarrow> bool" where
  "instanceOf v C \<longleftrightarrow>
     (\<not> isPrimitive v \<and>
      (case constructorOf v of Inr c \<Rightarrow> isSubtypeOf c C | Inl e \<Rightarrow> False))"

text \<open>
  An own property \<^verbatim>\<open>constructor\<close>, which shadows the inherited one. Only an object can
  have it: the own properties of an array are its indices and those of a string its
  characters. A source parsed from JSON text has it when the text has that key.
\<close>

fun ownConstructor :: "jsval \<Rightarrow> jsval option" where
  "ownConstructor (VObj c ps) = map_of ps ''constructor''"
| "ownConstructor v = None"

text \<open>
  \<^verbatim>\<open>nameof(fn)\<close> on a value that is not a function, which is what an own property holds:
  \<^verbatim>\<open>fn.name\<close> raises the host's TypeError on undefined and null; elsewhere the result
  is the property \<^verbatim>\<open>name\<close> when it is a string, else the text "undefined".
\<close>

definition nameofValue :: "jsval \<Rightarrow> error + string" where
  "nameofValue fn =
     (case getProp fn ''name'' of
        Inl e \<Rightarrow> Inl e
      | Inr (VStr s) \<Rightarrow> Inr s
      | Inr v \<Rightarrow> Inr ''undefined'')"

text \<open>\<^verbatim>\<open>nameof(v.constructor)\<close>, as the debug name of line 249 and the message of line 179 read it.\<close>

definition nameOfConstructor :: "jsval \<Rightarrow> error + string" where
  "nameOfConstructor v =
     (case ownConstructor v of
        Some fn \<Rightarrow> nameofValue fn
      | None \<Rightarrow> (case constructorOf v of Inl e \<Rightarrow> Inl e | Inr c \<Rightarrow> Inr (nameof c)))"

text \<open>
  \<^verbatim>\<open>sourceObject ? nameof(sourceObject.constructor) : "undefined"\<close>, the first thing
  convertSingleValue computes (line 249), before it looks at the expected type.
\<close>

definition srcTypeName :: "jsval \<Rightarrow> error + string" where
  "srcTypeName v = (if truthy v then nameOfConstructor v else Inr ''undefined'')"

section \<open>Options\<close>

text \<open>
  \<^verbatim>\<open>OptionsBase\<close> of options-base.ts has one optional property, \<^verbatim>\<open>preserveNull\<close>. An
  options object either has no such own property, or has it with a value that is null
  or undefined (\<open>Unset\<close>), or with a boolean.
\<close>

datatype optval = Unset | Flag bool

record optionsBase =
  preserveNull :: "optval option"

definition emptyOptions :: optionsBase where
  "emptyOptions = \<lparr>preserveNull = None\<rparr>"

text \<open>\<^verbatim>\<open>Object.assign(target, source)\<close> on options objects; an absent source adds nothing.\<close>

definition assignOptions :: "optionsBase \<Rightarrow> optionsBase option \<Rightarrow> optionsBase" where
  "assignOptions target source =
     (case source of None \<Rightarrow> target
      | Some s \<Rightarrow> (case preserveNull s of None \<Rightarrow> target
                  | Some v \<Rightarrow> target\<lparr>preserveNull := Some v\<rparr>))"

definition mergeOptions :: "optionsBase option \<Rightarrow> optionsBase option \<Rightarrow> optionsBase option" where
  "mergeOptions existing moreSpecific =
     (case moreSpecific of None \<Rightarrow> existing
      | Some m \<Rightarrow> Some (assignOptions (assignOptions emptyOptions existing) (Some m)))"

text \<open>
  \<^verbatim>\<open>getOptionValue('preserveNull', options)\<close>: the property when it is there and not
  null, else the default of \<^verbatim>\<open>getDefaultOptionOf\<close>, which is false.
\<close>

definition getOptionValue_preserveNull :: "optionsBase option \<Rightarrow> bool" where
  "getOptionValue_preserveNull opts =
     (case opts of None \<Rightarrow> False
      | Some o' \<Rightarrow> (case preserveNull o' of Some (Flag b) \<Rightarrow> b | _ \<Rightarrow> False))"

section \<open>Class metadata and the runtime\<close>

text \<open>
  What the engine reads of a member's metadata (\<^verbatim>\<open>injectMetadataInformation\<close> in
  json-member.ts fills it) and of a class's metadata. \<^verbatim>\<open>metadata.ts\<close> is not part of the
  sources at hand, so the registry \<^verbatim>\<open>JsonObjectMetadata.getFromConstructor\<close> is a parameter
  (in \<open>runtime\<close>). User callbacks return a value or raise. Field names are unique in a
  theory, so the \<^verbatim>\<open>options\<close> of a member are \<open>memberOptions\<close>, and the \<^verbatim>\<open>options\<close>,
  \<^verbatim>\<open>name\<close> and \<^verbatim>\<open>knownTypes\<close> of a class are \<open>classOptions\<close>, \<open>registeredName\<close> and
  \<open>knownTypeSet\<close>.
\<close>

record memberMetadata =
  key :: string
  ctor :: "ctor option"
  elementType :: "ctor list option"
  keyType :: "ctor option"
  isRequired :: bool
  deserializer :: "(jsval \<Rightarrow> error + jsval) option"
  memberOptions :: "optionsBase option"

record objectMetadata =
  classType :: ctor
  registeredName :: "string option"
  isExplicitlyMarked :: bool
  knownTypeSet :: "ctor list"
  dataMembers :: "(string \<times> memberMetadata) list"
  initializerCallback :: "((string \<times> jsval) list \<Rightarrow> jsval \<Rightarrow> error + jsval) option"
  onDeserializedMethodName :: "string option"
  classOptions :: "optionsBase option"

text \<open>
  The host and the user's classes, as far as the engine calls into them:
  \<^item> \<open>getFromConstructor\<close>: the metadata registry;
  \<^item> \<open>construct c\<close>: \<^verbatim>\<open>new c()\<close>, the instance or the constructor's exception;
  \<^item> \<open>instanceMethod c n\<close>: the method named \<open>n\<close> that instances of \<open>c\<close> inherit, as
    its effect on the receiver (the receiver after the call, or the exception);
  \<^item> \<open>staticMethod c n\<close>: the function-valued property \<open>n\<close> of the constructor \<open>c\<close>,
    as the exception it raises, if any;
  \<^item> \<open>coerceToNumber\<close>: the host's ToNumber on strings and objects;
  \<^item> \<open>encodeElement k n\<close>: the number a typed array of class \<open>k\<close> holds after \<open>n\<close> has
    been stored into it (the host's conversion to the element type of \<open>k\<close>).
\<close>

record runtime =
  getFromConstructor :: "ctor \<Rightarrow> objectMetadata option"
  construct :: "ctor \<Rightarrow> error + jsval"
  instanceMethod :: "ctor \<Rightarrow> string \<Rightarrow> (jsval \<Rightarrow> error + jsval) option"
  staticMethod :: "ctor \<Rightarrow> string \<Rightarrow> error option option"
  coerceToNumber :: "jsval \<Rightarrow> jsnum"
  encodeElement :: "ctor \<Rightarrow> jsnum \<Rightarrow> jsnum"

section \<open>The scope type information\<close>

text \<open>\<^verbatim>\<open>IScopeTypeInfo\<close>; \<^verbatim>\<open>knownTypes\<close> is a Map from names to constructors.\<close>

record scopeTypeInfo =
  selfConstructor :: ctor
  elementConstructor :: "ctor list option"
  keyConstructor :: "ctor option"
  knownTypes :: "(string \<times> ctor) list"

section \<open>The deserializer and its policies\<close>

text \<open>
  An argument handed to a setter is a function or some other value
  (\<^verbatim>\<open>typeof cb !== "function"\<close>).
\<close>

datatype 'f callback = Callable 'f | NotCallable jsval

text \<open>
  The fields of \<^verbatim>\<open>class Deserializer\<close>. \<open>nameResolver\<close> holds whatever was stored in
  \<^verbatim>\<open>_nameResolver\<close>, undefined at first. The error handler is modelled by its verdict on
  an error: \<open>None\<close> when it returns, \<open>Some e\<close> when it raises \<open>e\<close>; the errors it was called
  with are recorded by the conversion functions (see \<open>outcome\<close>).
\<close>

record deserializer =
  options :: "optionsBase option"
  typeResolver :: "jsval \<Rightarrow> (string \<times> ctor) list \<Rightarrow> ctor option"
  nameResolver :: "(ctor \<Rightarrow> string) callback"
  errorHandler :: "error \<Rightarrow> error option"

text \<open>
  The default type resolver of the constructor:
  \<^verbatim>\<open>if (sourceObject.__type) return knownTypes.get(sourceObject.__type)\<close>. The keys of the
  map are strings, so only a non-empty string can be found.
\<close>

definition defaultTypeResolver :: "jsval \<Rightarrow> (string \<times> ctor) list \<Rightarrow> ctor option" where
  "defaultTypeResolver sourceObject known =
     (case getProp sourceObject ''__type'' of
        Inr (VStr s) \<Rightarrow> (if s \<noteq> [] then map_of known s else None)
      | _ \<Rightarrow> None)"

text \<open>The constructor: the default resolver, and \<^verbatim>\<open>logError\<close>, which returns.\<close>

definition newDeserializer :: deserializer where
  "newDeserializer =
     \<lparr>options = None, typeResolver = defaultTypeResolver,
      nameResolver = NotCallable VUndefined, errorHandler = (\<lambda>e. None)\<rparr>"

definition setNameResolver ::
  "(ctor \<Rightarrow> string) callback \<Rightarrow> deserializer \<Rightarrow> error + deserializer" where
  "setNameResolver nameResolverCallback d = Inr (d\<lparr>nameResolver := nameResolverCallback\<rparr>)"

definition setTypeResolver ::
  "(jsval \<Rightarrow> (string \<times> ctor) list \<Rightarrow> ctor option) callback \<Rightarrow> deserializer
     \<Rightarrow> error + deserializer" where
  "setTypeResolver typeResolverCallback d =
     (case typeResolverCallback of
        NotCallable v \<Rightarrow> Inl (InvalidCallback ''typeResolverCallback'')
      | Callable f \<Rightarrow> Inr (d\<lparr>typeResolver := f\<rparr>))"

definition setErrorHandler ::
  "(error \<Rightarrow> error option) callback \<Rightarrow> deserializer \<Rightarrow> error + deserializer" where
  "setErrorHandler errorHandlerCallback d =
     (case errorHandlerCallback of
        NotCallable v \<Rightarrow> Inl (InvalidCallback ''errorHandlerCallback'')
      | Callable f \<Rightarrow> Inr (d\<lparr>errorHandler := f\<rparr>))"

text \<open>\<^verbatim>\<open>retrievePreserveNull(memberOptions)\<close>.\<close>

definition retrievePreserveNull :: "deserializer \<Rightarrow> optionsBase option \<Rightarrow> bool" where
  "retrievePreserveNull d memberOpts =
     getOptionValue_preserveNull (mergeOptions (options d) memberOpts)"

section \<open>Outcomes: a result or an exception, and the errors reported on the way\<close>

text \<open>
  A call of the engine returns a value or raises, and on the way calls the error handler
  some number of times. Its outcome is the result (\<open>Inl\<close> the exception) together with
  the errors handed to the error handler, in call order.
\<close>

type_synonym 'a outcome = "(error + 'a) \<times> error list"

definition returnO :: "'a \<Rightarrow> 'a outcome" where
  "returnO x = (Inr x, [])"

definition throwO :: "error \<Rightarrow> 'a outcome" where
  "throwO e = (Inl e, [])"

definition liftO :: "error + 'a \<Rightarrow> 'a outcome" where
  "liftO r = (r, [])"

text \<open>Sequencing: an exception of the first part skips the second.\<close>

definition bindO :: "'a outcome \<Rightarrow> ('a \<Rightarrow> 'b outcome) \<Rightarrow> 'b outcome" where
  "bindO m f =
     (case m of
        (Inl e, l) \<Rightarrow> (Inl e, l)
      | (Inr x, l) \<Rightarrow> (case f x of (r, l') \<Rightarrow> (r, l @ l')))"

text \<open>\<^verbatim>\<open>try { m } catch (e) { h(e) }\<close>.\<close>

definition catchO :: "'a outcome \<Rightarrow> (error \<Rightarrow> 'a outcome) \<Rightarrow> 'a outcome" where
  "catchO m h =
     (case m of
        (Inl e, l) \<Rightarrow> (case h e of (r, l') \<Rightarrow> (r, l @ l'))
      | (Inr x, l) \<Rightarrow> (Inr x, l))"

text \<open>\<^verbatim>\<open>this._errorHandler(e)\<close>: the call is recorded; the handler returns or raises.\<close>

definition report :: "deserializer \<Rightarrow> error \<Rightarrow> unit outcome" where
  "report d e = (case errorHandler d e of None \<Rightarrow> (Inr (), [e]) | Some x \<Rightarrow> (Inl x, [e]))"

text \<open>
  \<^verbatim>\<open>xs.forEach(x => ...)\<close> updating a container, and \<^verbatim>\<open>xs.map(x => ...)\<close>; an exception
  of the callback ends the loop.
\<close>

primrec forEachO :: "('a \<Rightarrow> 'b \<Rightarrow> 'b outcome) \<Rightarrow> 'a list \<Rightarrow> 'b \<Rightarrow> 'b outcome" where
  "forEachO f [] acc = returnO acc"
| "forEachO f (x # xs) acc = bindO (f x acc) (forEachO f xs)"

primrec mapO :: "('a \<Rightarrow> 'b outcome) \<Rightarrow> 'a list \<Rightarrow> 'b list outcome" where
  "mapO f [] = returnO []"
| "mapO f (x # xs) = bindO (f x) (\<lambda>y. bindO (mapO f xs) (\<lambda>ys. returnO (y # ys)))"

section \<open>Known types\<close>

text \<open>
  \<^verbatim>\<open>this._nameResolver(ctor)\<close> behind the test \<^verbatim>\<open>if (this._nameResolver)\<close>: \<open>None\<close> when
  the field is falsy, else the name, or the host's TypeError when the stored value is not
  a function.
\<close>

definition resolveName :: "deserializer \<Rightarrow> ctor \<Rightarrow> (error + string) option" where
  "resolveName d c =
     (case nameResolver d of
        Callable f \<Rightarrow> Some (Inr (f c))
      | NotCallable v \<Rightarrow> (if truthy v then Some (Inl (NotAFunction ''_nameResolver'')) else None))"

text \<open>
  \<^verbatim>\<open>_mergeKnownTypes(...knownTypeMaps)\<close>: every entry of every map, in order, is set in
  the result under the resolved name, or under its own name without a name resolver.
  \<^verbatim>\<open>Map.set\<close> replaces the value of a key that is there and appends a new key.
\<close>

definition mergeKnownTypes ::
  "deserializer \<Rightarrow> (string \<times> ctor) list list \<Rightarrow> error + (string \<times> ctor) list" where
  "mergeKnownTypes d knownTypeMaps =
     fold (\<lambda>(name, c) acc.
             case acc of Inl e \<Rightarrow> Inl e
             | Inr result \<Rightarrow>
                 (case resolveName d c of
                    Some (Inl e) \<Rightarrow> Inl e
                  | Some (Inr n) \<Rightarrow> Inr (AList.update n c result)
                  | None \<Rightarrow> Inr (AList.update name c result)))
          (concat knownTypeMaps) (Inr [])"

text \<open>
  \<^verbatim>\<open>_createKnownTypesMap(knowTypes)\<close>: without a name resolver the name is the one the
  class was registered under, when it is explicitly marked and has a non-empty one, else
  the constructor's own.
\<close>

definition knownTypeName :: "runtime \<Rightarrow> ctor \<Rightarrow> string" where
  "knownTypeName r c =
     (case getFromConstructor r c of
        Some knownTypeMeta \<Rightarrow>
          (if isExplicitlyMarked knownTypeMeta then
             (case registeredName knownTypeMeta of
                Some n \<Rightarrow> (if n \<noteq> [] then n else nameof c)
              | None \<Rightarrow> nameof c)
           else nameof c)
      | None \<Rightarrow> nameof c)"

definition createKnownTypesMap ::
  "deserializer \<Rightarrow> runtime \<Rightarrow> ctor list \<Rightarrow> error + (string \<times> ctor) list" where
  "createKnownTypesMap d r knowTypes =
     fold (\<lambda>c acc.
             case acc of Inl e \<Rightarrow> Inl e
             | Inr m \<Rightarrow>
                 (case resolveName d c of
                    Some (Inl e) \<Rightarrow> Inl e
                  | Some (Inr n) \<Rightarrow> Inr (AList.update n c m)
                  | None \<Rightarrow> Inr (AList.update (knownTypeName r c) c m)))
          knowTypes (Inr [])"

section \<open>Numbers and buffers\<close>

text \<open>The host's ToNumber; strings and objects are left to the runtime.\<close>

fun toNumber :: "runtime \<Rightarrow> jsval \<Rightarrow> jsnum" where
  "toNumber r VUndefined = NaN"
| "toNumber r VNull = Finite 0"
| "toNumber r (VBool b) = (if b then Finite 1 else Finite 0)"
| "toNumber r (VNum n) = n"
| "toNumber r v = coerceToNumber r v"

text \<open>The global \<^verbatim>\<open>isNaN(elem)\<close>, which coerces its argument to a number first.\<close>

definition jsIsNaN :: "runtime \<Rightarrow> jsval \<Rightarrow> bool" where
  "jsIsNaN r v \<longleftrightarrow> toNumber r v = NaN"

text \<open>
  ToInt32: NaN and the infinities give 0; a finite number is truncated towards zero and
  wrapped into the signed 32-bit range.
\<close>

definition toInt32 :: "jsnum \<Rightarrow> int" where
  "toInt32 n =
     (case n of
        Finite q \<Rightarrow>
          (let t = (if q < 0 then - \<lfloor>- q\<rfloor> else \<lfloor>q\<rfloor>);
               m = t mod 2 ^ 32
           in if 2 ^ 31 \<le> m then m - 2 ^ 32 else m)
      | _ \<Rightarrow> 0)"

text \<open>\<^verbatim>\<open>~~value\<close>.\<close>

definition bitNotNot :: "runtime \<Rightarrow> jsval \<Rightarrow> jsnum" where
  "bitNotNot r v = Finite (of_int (toInt32 (toNumber r v)))"

text \<open>
  The test of the typed-array branches,
  \<^verbatim>\<open>sourceObject instanceof Array && sourceObject.every(elem => !isNaN(elem))\<close>: the
  elements when it holds.
\<close>

definition numericSourceArray :: "runtime \<Rightarrow> jsval \<Rightarrow> jsval list option" where
  "numericSourceArray r sourceObject =
     (case sourceObject of
        VArr xs \<Rightarrow> (if list_all (\<lambda>elem. \<not> jsIsNaN r elem) xs then Some xs else None)
      | _ \<Rightarrow> None)"

text \<open>
  \<^verbatim>\<open>new k(source)\<close> for a typed array class \<open>k\<close> and the numbers of the source array:
  every number is stored, which encodes it.
\<close>

definition newTypedArray :: "runtime \<Rightarrow> ctor \<Rightarrow> jsnum list \<Rightarrow> jsval" where
  "newTypedArray r k ns = VTyped k (map (encodeElement r k) ns)"

text \<open>\<^verbatim>\<open>_stringToArrayBuffer(str)\<close>: one 16-bit unit per character, its code.\<close>

definition stringToArrayBuffer :: "string \<Rightarrow> nat list" where
  "stringToArrayBuffer str = map of_char str"

section \<open>Containers\<close>

text \<open>\<^verbatim>\<open>resultSet.add(v)\<close> and \<^verbatim>\<open>resultMap.set(k, v)\<close>.\<close>

definition setAdd :: "jsval \<Rightarrow> jsval list \<Rightarrow> jsval list" where
  "setAdd v xs = (if isPrimitive v \<and> v \<in> set xs then xs else xs @ [v])"

definition mapSet :: "jsval \<Rightarrow> jsval \<Rightarrow> (jsval \<times> jsval) list \<Rightarrow> (jsval \<times> jsval) list" where
  "mapSet k v m = (if isPrimitive k then AList.update k v m else m @ [(k, v)])"

text \<open>
  \<^verbatim>\<open>sourceObject.forEach\<close>: the values the host's \<^verbatim>\<open>forEach\<close> passes first to its
  callback, for the values that have such a method; \<open>None\<close> for the others, where the
  call raises the host's TypeError.
\<close>

fun forEachItems :: "jsval \<Rightarrow> jsval list option" where
  "forEachItems (VArr xs) = Some xs"
| "forEachItems (VSet xs) = Some xs"
| "forEachItems (VMap kvs) = Some (map snd kvs)"
| "forEachItems (VTyped k ns) = Some (map VNum ns)"
| "forEachItems v = None"

section \<open>The parts of convertAsObject that do not recurse\<close>

text \<open>
  Lines 69 to 103: the expected type, its metadata and the known types after the type
  hint has been looked at.
\<close>

definition mergeOwnKnownTypes ::
  "deserializer \<Rightarrow> runtime \<Rightarrow> (string \<times> ctor) list \<Rightarrow> objectMetadata option
     \<Rightarrow> error + (string \<times> ctor) list" where
  "mergeOwnKnownTypes d r knownTypeConstructors sourceObjectMetadata =
     (case sourceObjectMetadata of
        None \<Rightarrow> Inr knownTypeConstructors
      | Some md \<Rightarrow>
          (case createKnownTypesMap d r (knownTypeSet md) of
             Inl e \<Rightarrow> Inl e
           | Inr own \<Rightarrow> mergeKnownTypes d [knownTypeConstructors, own]))"

definition resolveSelfType ::
  "deserializer \<Rightarrow> runtime \<Rightarrow> jsval \<Rightarrow> scopeTypeInfo
     \<Rightarrow> error + (ctor \<times> objectMetadata option \<times> (string \<times> ctor) list)" where
  "resolveSelfType d r sourceObject sourceObjectTypeInfo =
     (let expectedSelfType = selfConstructor sourceObjectTypeInfo;
          sourceObjectMetadata = getFromConstructor r expectedSelfType
      in case mergeOwnKnownTypes d r (knownTypes sourceObjectTypeInfo) sourceObjectMetadata of
           Inl e \<Rightarrow> Inl e
         | Inr knownTypeConstructors \<Rightarrow>
             (case typeResolver d sourceObject knownTypeConstructors of
                None \<Rightarrow> Inr (expectedSelfType, sourceObjectMetadata, knownTypeConstructors)
              | Some typeFromTypeHint \<Rightarrow>
                  (if isSubtypeOf typeFromTypeHint expectedSelfType then
                     (case mergeOwnKnownTypes d r knownTypeConstructors
                             (getFromConstructor r typeFromTypeHint) of
                        Inl e \<Rightarrow> Inl e
                      | Inr merged \<Rightarrow>
                          Inr (typeFromTypeHint, getFromConstructor r typeFromTypeHint, merged))
                   else Inr (expectedSelfType, sourceObjectMetadata, knownTypeConstructors))))"

text \<open>\<^verbatim>\<open>sourceObjectMetadata && sourceObjectMetadata.isExplicitlyMarked\<close>.\<close>

definition explicitlyMarked :: "objectMetadata option \<Rightarrow> objectMetadata option" where
  "explicitlyMarked sourceObjectMetadata =
     (case sourceObjectMetadata of
        Some md \<Rightarrow> (if isExplicitlyMarked md then Some md else None)
      | None \<Rightarrow> None)"

text \<open>
  The body of the \<^verbatim>\<open>try\<close> of lines 159 to 185: the initializer callback is called and
  its result checked. The message for a result of the wrong class is built from
  \<^verbatim>\<open>nameof(targetObject.constructor)\<close>, whose own exception takes the place of the error
  it was to describe.
\<close>

definition callInitializer ::
  "objectMetadata \<Rightarrow> label \<Rightarrow> ((string \<times> jsval) list \<Rightarrow> jsval \<Rightarrow> error + jsval)
     \<Rightarrow> (string \<times> jsval) list \<Rightarrow> jsval \<Rightarrow> error + jsval" where
  "callInitializer sourceObjectMetadata objectName initializer staged sourceObject =
     (case initializer staged sourceObject of
        Inl e \<Rightarrow> Inl e
      | Inr targetObject \<Rightarrow>
          (if \<not> truthy targetObject then
             Inl (InvalidInitializerResult objectName None
                    (nameof (classType sourceObjectMetadata)))
           else if \<not> instanceOf targetObject (classType sourceObjectMetadata) then
             (case nameOfConstructor targetObject of
                Inl e \<Rightarrow> Inl e
              | Inr returned \<Rightarrow>
                  Inl (InvalidInitializerResult objectName (Some returned)
                         (nameof (classType sourceObjectMetadata))))
           else Inr targetObject))"

text \<open>\<^verbatim>\<open>Object.assign(targetObject, staged)\<close>.\<close>

fun objectAssign :: "jsval \<Rightarrow> (string \<times> jsval) list \<Rightarrow> jsval" where
  "objectAssign (VObj c ps) staged = VObj c (fold (\<lambda>(k, v). AList.update k v) staged ps)"
| "objectAssign v staged = v"

text \<open>
  \<^verbatim>\<open>typeof targetObject[name] === "function"\<close>: an own property is a value, never a
  function; without one, the method the instance inherits.
\<close>

definition methodOf :: "runtime \<Rightarrow> jsval \<Rightarrow> string \<Rightarrow> (jsval \<Rightarrow> error + jsval) option" where
  "methodOf r targetObject name =
     (case map_of (ownProps targetObject) name of
        Some v \<Rightarrow> None
      | None \<Rightarrow> (case constructorOf targetObject of
                   Inr c \<Rightarrow> instanceMethod r c name
                 | Inl e \<Rightarrow> None))"

text \<open>
  Lines 200 to 221: the onDeserialized hook, and the result. The static method is looked
  up on the constructor that the target inherits.
\<close>

definition notifyDeserialized ::
  "deserializer \<Rightarrow> runtime \<Rightarrow> objectMetadata \<Rightarrow> jsval \<Rightarrow> jsval outcome" where
  "notifyDeserialized d r sourceObjectMetadata targetObject =
     (case onDeserializedMethodName sourceObjectMetadata of
        None \<Rightarrow> returnO targetObject
      | Some name \<Rightarrow>
          (if name = [] then returnO targetObject
           else case methodOf r targetObject name of
                  Some m \<Rightarrow> liftO (m targetObject)
                | None \<Rightarrow>
                    bindO (liftO (constructorOf targetObject)) (\<lambda>c.
                      case staticMethod r c name of
                        Some None \<Rightarrow> returnO targetObject
                      | Some (Some e) \<Rightarrow> throwO e
                      | None \<Rightarrow>
                          bindO (report d (InvalidHook (nameof (classType sourceObjectMetadata)) name))
                            (\<lambda>_. returnO targetObject))))"

text \<open>
  Lines 154 to 221: the target is made by the initializer callback or by
  \<^verbatim>\<open>_instantiateType\<close>, the deserialized properties are assigned to it, the hook runs.
\<close>

definition instantiateType :: "runtime \<Rightarrow> ctor \<Rightarrow> error + jsval" where
  "instantiateType r c = construct r c"

definition finishObject ::
  "deserializer \<Rightarrow> runtime \<Rightarrow> jsval \<Rightarrow> objectMetadata \<Rightarrow> ctor \<Rightarrow> label
     \<Rightarrow> (string \<times> jsval) list \<Rightarrow> jsval outcome" where
  "finishObject d r sourceObject sourceObjectMetadata expectedSelfType objectName staged =
     (case initializerCallback sourceObjectMetadata of
        Some initializer \<Rightarrow>
          (case callInitializer sourceObjectMetadata objectName initializer staged sourceObject of
             Inl e \<Rightarrow> bindO (report d e) (\<lambda>_. returnO VUndefined)
           | Inr targetObject \<Rightarrow>
               notifyDeserialized d r sourceObjectMetadata (objectAssign targetObject staged))
      | None \<Rightarrow>
          bindO (liftO (instantiateType r expectedSelfType)) (\<lambda>targetObject.
            notifyDeserialized d r sourceObjectMetadata (objectAssign targetObject staged)))"

text \<open>
  \<^verbatim>\<open>_isDirectlyDeserializableNativeType(ctor)\<close>: one of Number, String, Boolean.
\<close>

definition isDirectlyDeserializableNativeType :: "ctor \<Rightarrow> bool" where
  "isDirectlyDeserializableNativeType c \<longleftrightarrow> c \<in> set [CNumber, CString, CBoolean]"

text \<open>\<^verbatim>\<open>_throwTypeMismatchError(targetType, expectedSourceType, actualSourceType, memberName)\<close>.\<close>

definition throwTypeMismatchError :: "string \<Rightarrow> string \<Rightarrow> string \<Rightarrow> label \<Rightarrow> 'a outcome" where
  "throwTypeMismatchError targetType expectedSourceType actualSourceType memberName =
     throwO (TypeMismatch memberName targetType expectedSourceType actualSourceType)"

text \<open>
  The type information of the elements of a container: the first element constructor, and
  the rest of them one level down.
\<close>

definition elementTypeInfo :: "scopeTypeInfo \<Rightarrow> ctor \<Rightarrow> ctor list \<Rightarrow> scopeTypeInfo" where
  "elementTypeInfo typeInfo c cs =
     \<lparr>selfConstructor = c, elementConstructor = Some cs, keyConstructor = None,
      knownTypes = knownTypes typeInfo\<rparr>"

definition keyTypeInfo :: "scopeTypeInfo \<Rightarrow> ctor \<Rightarrow> scopeTypeInfo" where
  "keyTypeInfo typeInfo kc =
     \<lparr>selfConstructor = kc, elementConstructor = None, keyConstructor = None,
      knownTypes = knownTypes typeInfo\<rparr>"

section \<open>The conversion functions\<close>

text \<open>\<^verbatim>\<open>typeof sourceObject === "string"\<close>: the string, when it is one.\<close>

fun stringOf :: "jsval \<Rightarrow> string option" where
  "stringOf (VStr s) = Some s"
| "stringOf v = None"

text \<open>
  The measure of the recursion: every recursive call of the engine is on a property or an
  element of the value at hand, or on the same value from convertSingleValue.
\<close>

fun weight :: "jsval \<Rightarrow> nat" where
  "weight VUndefined = 0"
| "weight VNull = 0"
| "weight (VArr xs) = Suc (Suc (sum_list (map weight xs)))"
| "weight (VObj c ps) = Suc (Suc (sum_list (map (\<lambda>p. weight (snd p)) ps)))"
| "weight (VSet xs) = Suc (Suc (sum_list (map weight xs)))"
| "weight (VMap kvs) = Suc (Suc (sum_list (map (\<lambda>p. weight (snd p)) kvs)))"
| "weight (VTyped k ns) = 2"
| "weight v = 1"

lemma bindO_cong [fundef_cong]:
  "m = m' \<Longrightarrow> (\<And>x l. m' = (Inr x, l) \<Longrightarrow> f x = f' x) \<Longrightarrow> bindO m f = bindO m' f'"
  by (auto simp: bindO_def split: prod.splits sum.splits)

lemma catchO_cong [fundef_cong]:
  "m = m' \<Longrightarrow> (\<And>e l. m' = (Inl e, l) \<Longrightarrow> h e = h' e) \<Longrightarrow> catchO m h = catchO m' h'"
  by (auto simp: catchO_def split: prod.splits sum.splits)

lemma forEachO_cong [fundef_cong]:
  "xs = ys \<Longrightarrow> acc = acc' \<Longrightarrow> (\<And>x a. x \<in> set ys \<Longrightarrow> f x a = g x a)
     \<Longrightarrow> forEachO f xs acc = forEachO g ys acc'"
proof (induction xs arbitrary: ys acc acc')
  case Nil
  then show ?case by simp
next
  case (Cons x xs)
  then obtain ys' where ys: "ys = x # ys'" "ys' = xs" by auto
  have "forEachO f xs = forEachO g xs"
    using Cons ys by (intro ext) auto
  moreover have "f x acc = g x acc'" using Cons ys by auto
  ultimately show ?case using ys by simp
qed

lemma mapO_cong [fundef_cong]:
  "xs = ys \<Longrightarrow> (\<And>x. x \<in> set ys \<Longrightarrow> f x = g x) \<Longrightarrow> mapO f xs = mapO g ys"
  by (induction xs arbitrary: ys) auto

lemma weight_elem: "x \<in> set xs \<Longrightarrow> weight x \<le> sum_list (map weight xs)"
  by (induction xs) auto

lemma weight_snd: "p \<in> set ps \<Longrightarrow> weight (snd p) \<le> sum_list (map (\<lambda>p. weight (snd p)) ps)"
  by (induction ps) auto

lemma weight_ownProps: "(k, x) \<in> set (ownProps v) \<Longrightarrow> weight x < weight v"
proof (cases v)
  case (VArr xs)
  assume "(k, x) \<in> set (ownProps v)"
  then have "x \<in> set xs" using VArr by (auto dest: set_zip_rightD)
  then show ?thesis using VArr weight_elem [of x xs] by simp
next
  case (VTyped c ns)
  assume "(k, x) \<in> set (ownProps v)"
  then have "x \<in> set (map VNum ns)" using VTyped by (auto dest: set_zip_rightD)
  then show ?thesis using VTyped by auto
next
  case (VObj c ps)
  assume "(k, x) \<in> set (ownProps v)"
  then show ?thesis using VObj weight_snd [of "(k, x)" ps] by simp
qed auto

lemma weight_getProp: "getProp v k = Inr x \<Longrightarrow> weight x < weight v"
proof -
  assume g: "getProp v k = Inr x"
  then have d: "isValueDefined v" by (auto simp: getProp_def split: if_splits)
  then have pos: "0 < weight v" by (cases v) (auto simp: isValueDefined_def)
  show ?thesis
  proof (cases "map_of (ownProps v) k")
    case None
    then have "x = builtinProp v k" using g d by (simp add: getProp_def)
    then show ?thesis using pos by (cases v) auto
  next
    case (Some y)
    then have "(k, y) \<in> set (ownProps v)" by (rule map_of_SomeD)
    then show ?thesis using g d Some weight_ownProps by (simp add: getProp_def)
  qed
qed

lemma weight_forEachItems: "forEachItems v = Some xs \<Longrightarrow> x \<in> set xs \<Longrightarrow> weight x < weight v"
proof (cases v)
  case (VArr ys)
  assume "forEachItems v = Some xs" "x \<in> set xs"
  then show ?thesis using VArr weight_elem [of x ys] by auto
next
  case (VSet ys)
  assume "forEachItems v = Some xs" "x \<in> set xs"
  then show ?thesis using VSet weight_elem [of x ys] by auto
next
  case (VMap kvs)
  assume "forEachItems v = Some xs" "x \<in> set xs"
  then obtain p where "p \<in> set kvs" "x = snd p" using VMap by auto
  then show ?thesis using VMap weight_snd [of p kvs] by auto
next
  case (VTyped k ns)
  assume "forEachItems v = Some xs" "x \<in> set xs"
  then show ?thesis using VTyped by auto
qed auto


text \<open>The elements of an array, and a list with its indices.\<close>

fun arrayElements :: "jsval \<Rightarrow> jsval list" where
  "arrayElements (VArr xs) = xs"
| "arrayElements v = []"

definition indexed :: "'a list \<Rightarrow> (nat \<times> 'a) list" where
  "indexed xs = zip [0..<length xs] xs"

lemma weight_arrayElements: "x \<in> set (arrayElements v) \<Longrightarrow> weight x < weight v"
proof (cases v)
  case (VArr xs)
  assume "x \<in> set (arrayElements v)"
  then show ?thesis using VArr weight_elem [of x xs] by simp
qed auto

lemma weight_indexed: "(i, x) \<in> set (indexed (arrayElements v)) \<Longrightarrow> weight x < weight v"
  by (auto simp: indexed_def dest: set_zip_rightD weight_arrayElements)

lemma weight_liftO_getProp: "liftO (getProp v k) = (Inr x, l) \<Longrightarrow> weight x < weight v"
  by (auto simp: liftO_def weight_getProp)

text \<open>
  The mutually recursive methods of \<^verbatim>\<open>class Deserializer\<close>, branch by branch in the
  order of the source. The two loops of convertAsObject have names of their own:
  \<open>convertDataMembers\<close> is the \<^verbatim>\<open>forEach\<close> over the data members (lines 114 to 152)
  and returns the deserialized properties; \<open>convertOwnProperties\<close> is the \<^verbatim>\<open>forEach\<close>
  over \<^verbatim>\<open>Object.keys(sourceObject)\<close> of the untyped branch (lines 228 to 236), where
  the expected type of a property value is the constructor that it inherits.
  convertSingleValue reads the name of the source's type first (line 249), and the
  exception of that read ends the call whatever the expected type is.
\<close>

function convertSingleValue ::
    "deserializer \<Rightarrow> runtime \<Rightarrow> jsval \<Rightarrow> scopeTypeInfo \<Rightarrow> label \<Rightarrow> optionsBase option
       \<Rightarrow> jsval outcome"
  and convertAsObject ::
    "deserializer \<Rightarrow> runtime \<Rightarrow> jsval \<Rightarrow> scopeTypeInfo \<Rightarrow> label \<Rightarrow> optionsBase option
       \<Rightarrow> jsval outcome"
  and convertDataMembers ::
    "deserializer \<Rightarrow> runtime \<Rightarrow> jsval \<Rightarrow> objectMetadata \<Rightarrow> (string \<times> ctor) list
       \<Rightarrow> (string \<times> jsval) list outcome"
  and convertOwnProperties ::
    "deserializer \<Rightarrow> runtime \<Rightarrow> jsval \<Rightarrow> scopeTypeInfo \<Rightarrow> (string \<times> jsval) list outcome"
  and convertAsArray ::
    "deserializer \<Rightarrow> runtime \<Rightarrow> jsval \<Rightarrow> scopeTypeInfo \<Rightarrow> label \<Rightarrow> optionsBase option
       \<Rightarrow> jsval outcome"
  and convertAsSet ::
    "deserializer \<Rightarrow> runtime \<Rightarrow> jsval \<Rightarrow> scopeTypeInfo \<Rightarrow> label \<Rightarrow> optionsBase option
       \<Rightarrow> jsval outcome"
  and convertAsMap ::
    "deserializer \<Rightarrow> runtime \<Rightarrow> jsval \<Rightarrow> scopeTypeInfo \<Rightarrow> label \<Rightarrow> optionsBase option
       \<Rightarrow> jsval outcome"
where
  "convertSingleValue d r sourceObject typeInfo memberName memberOpts =
     (let expectedSelfType = selfConstructor typeInfo in
      bindO (liftO (srcTypeName sourceObject)) (\<lambda>srcTypeNameForDebug.
      if retrievePreserveNull d memberOpts \<and> sourceObject = VNull then returnO VNull
      else if \<not> isValueDefined sourceObject then returnO VUndefined
      else if isDirectlyDeserializableNativeType expectedSelfType then
        bindO (liftO (constructorOf sourceObject)) (\<lambda>c.
          if c = expectedSelfType then returnO sourceObject
          else throwO (UnexpectedType memberName (nameof expectedSelfType) (nameof c)))
      else if expectedSelfType = CDate then
        (if isString sourceObject \<or> isPositiveNumber sourceObject
         then returnO (VDate sourceObject)
         else throwTypeMismatchError ''Date'' ''an ISO-8601 string''
                srcTypeNameForDebug memberName)
      else if expectedSelfType = CFloat32Array then
        (case numericSourceArray r sourceObject of
           Some xs \<Rightarrow> returnO (newTypedArray r CFloat32Array (map (toNumber r) xs))
         | None \<Rightarrow> throwTypeMismatchError ''Float32Array'' ''a numeric source array''
                     srcTypeNameForDebug memberName)
      else if expectedSelfType = CFloat64Array then
        (case numericSourceArray r sourceObject of
           Some xs \<Rightarrow> returnO (newTypedArray r CFloat64Array (map (toNumber r) xs))
         | None \<Rightarrow> throwTypeMismatchError ''Float64Array'' ''a numeric source array''
                     srcTypeNameForDebug memberName)
      else if expectedSelfType = CUint8Array then
        (case numericSourceArray r sourceObject of
           Some xs \<Rightarrow> returnO (newTypedArray r CUint8Array (map (bitNotNot r) xs))
         | None \<Rightarrow> throwTypeMismatchError ''Uint8Array'' ''a numeric source array''
                     srcTypeNameForDebug memberName)
      else if expectedSelfType = CUint8ClampedArray then
        (case numericSourceArray r sourceObject of
           Some xs \<Rightarrow> returnO (newTypedArray r CUint8ClampedArray (map (bitNotNot r) xs))
         | None \<Rightarrow> throwTypeMismatchError ''Uint8ClampedArray'' ''a numeric source array''
                     srcTypeNameForDebug memberName)
      else if expectedSelfType = CUint16Array then
        (case numericSourceArray r sourceObject of
           Some xs \<Rightarrow> returnO (newTypedArray r CUint16Array (map (bitNotNot r) xs))
         | None \<Rightarrow> throwTypeMismatchError ''Uint16Array'' ''a numeric source array''
                     srcTypeNameForDebug memberName)
      else if expectedSelfType = CUint32Array then
        (case numericSourceArray r sourceObject of
           Some xs \<Rightarrow> returnO (newTypedArray r CUint32Array (map (bitNotNot r) xs))
         | None \<Rightarrow> throwTypeMismatchError ''Uint32Array'' ''a numeric source array''
                     srcTypeNameForDebug memberName)
      else if expectedSelfType = CArrayBuffer then
        (case stringOf sourceObject of
           Some str \<Rightarrow> returnO (VArrayBuffer (stringToArrayBuffer str))
         | None \<Rightarrow> throwTypeMismatchError ''ArrayBuffer'' ''a string source''
                     srcTypeNameForDebug memberName)
      else if expectedSelfType = CDataView then
        (case stringOf sourceObject of
           Some str \<Rightarrow> returnO (VDataView (stringToArrayBuffer str))
         | None \<Rightarrow> throwTypeMismatchError ''DataView'' ''a string source''
                     srcTypeNameForDebug memberName)
      else if expectedSelfType = CArray then
        (if isArray sourceObject
         then convertAsArray d r sourceObject typeInfo memberName memberOpts
         else bindO (liftO (constructorOf sourceObject)) (\<lambda>c.
                throwO (UnexpectedType memberName (nameof CArray) (nameof c))))
      else if expectedSelfType = CSet then
        (if isArray sourceObject
         then convertAsSet d r sourceObject typeInfo memberName memberOpts
         else throwTypeMismatchError ''Set'' ''Array'' srcTypeNameForDebug memberName)
      else if expectedSelfType = CMap then
        (if isArray sourceObject
         then convertAsMap d r sourceObject typeInfo memberName memberOpts
         else throwTypeMismatchError ''Map'' ''a source array of key-value-pair objects''
                srcTypeNameForDebug memberName)
      else if truthy sourceObject \<and> typeofObject sourceObject
      then convertAsObject d r sourceObject typeInfo memberName memberOpts
      else returnO VUndefined))"
| "convertAsObject d r sourceObject sourceObjectTypeInfo objectName memberOpts =
     (if \<not> typeofObject sourceObject \<or> sourceObject = VNull then
        bindO (report d (NotAnObject objectName)) (\<lambda>_. returnO VUndefined)
      else
        bindO (liftO (resolveSelfType d r sourceObject sourceObjectTypeInfo))
          (\<lambda>(expectedSelfType, sourceObjectMetadata, knownTypeConstructors).
            case explicitlyMarked sourceObjectMetadata of
              Some sourceMetadata \<Rightarrow>
                bindO (convertDataMembers d r sourceObject sourceMetadata knownTypeConstructors)
                  (\<lambda>staged. finishObject d r sourceObject sourceMetadata expectedSelfType
                              objectName staged)
            | None \<Rightarrow>
                bindO (convertOwnProperties d r sourceObject sourceObjectTypeInfo)
                  (\<lambda>targetProps. returnO (VObj CObject targetProps))))"
| "convertDataMembers d r sourceObject sourceMetadata knownTypeConstructors =
     forEachO
       (\<lambda>(propKey, memberMeta) staged.
          bindO (liftO (getProp sourceObject propKey)) (\<lambda>memberValue.
            bindO
              (case deserializer memberMeta of
                 Some f \<Rightarrow> liftO (f memberValue)
               | None \<Rightarrow>
                   (case ctor memberMeta of
                      Some c \<Rightarrow>
                        convertSingleValue d r memberValue
                          \<lparr>selfConstructor = c,
                           elementConstructor = elementType memberMeta,
                           keyConstructor = keyType memberMeta,
                           knownTypes = knownTypeConstructors\<rparr>
                          (MemberOf (nameof (classType sourceMetadata)) propKey)
                          (mergeOptions
                             (mergeOptions (options d) (classOptions sourceMetadata))
                             (memberOptions memberMeta))
                    | None \<Rightarrow>
                        throwO (MissingConverter
                          (MemberOf (nameof (classType sourceMetadata)) propKey))))
              (\<lambda>revivedValue.
                 if isValueDefined revivedValue
                    \<or> (retrievePreserveNull d
                          (mergeOptions
                             (mergeOptions (options d) (classOptions sourceMetadata))
                             (memberOptions memberMeta))
                        \<and> revivedValue = VNull)
                 then returnO (AList.update (key memberMeta) revivedValue staged)
                 else if isRequired memberMeta then
                   bindO (report d (MissingRequiredMember
                            (MemberOf (nameof (classType sourceMetadata)) propKey)))
                     (\<lambda>_. returnO staged)
                 else returnO staged)))
       (dataMembers sourceMetadata) []"
| "convertOwnProperties d r sourceObject sourceObjectTypeInfo =
     forEachO
       (\<lambda>(sourceKey, sourceValue) targetProps.
          bindO (liftO (constructorOf sourceValue)) (\<lambda>c.
            bindO
              (convertSingleValue d r sourceValue
                 \<lparr>selfConstructor = c,
                  elementConstructor = elementConstructor sourceObjectTypeInfo,
                  keyConstructor = keyConstructor sourceObjectTypeInfo,
                  knownTypes = knownTypes sourceObjectTypeInfo\<rparr>
                 (Named sourceKey) None)
              (\<lambda>v. returnO (AList.update sourceKey v targetProps))))
       (ownProps sourceObject) []"
| "convertAsArray d r sourceObject typeInfo memberName memberOpts =
     (if \<not> isArray sourceObject then
        bindO (liftO (constructorOf sourceObject)) (\<lambda>c.
          bindO (report d (UnexpectedType memberName (nameof CArray) (nameof c)))
            (\<lambda>_. returnO (VArr [])))
      else case elementConstructor typeInfo of
        Some (c # cs) \<Rightarrow>
          bindO
            (mapO
               (\<lambda>element.
                  catchO
                    (convertSingleValue d r element (elementTypeInfo typeInfo c cs)
                       (ElemOf memberName) memberOpts)
                    (\<lambda>e. bindO (report d e) (\<lambda>_. returnO VUndefined)))
               (arrayElements sourceObject))
            (\<lambda>out. returnO (VArr out))
      | _ \<Rightarrow>
          bindO (report d (MissingElementConstructor memberName ''Array''))
            (\<lambda>_. returnO (VArr [])))"
| "convertAsSet d r sourceObject typeInfo memberName memberOpts =
     (if \<not> isArray sourceObject then
        bindO (liftO (constructorOf sourceObject)) (\<lambda>c.
          bindO (report d (UnexpectedType memberName (nameof CArray) (nameof c)))
            (\<lambda>_. returnO (VSet [])))
      else case elementConstructor typeInfo of
        Some (c # cs) \<Rightarrow>
          bindO
            (forEachO
               (\<lambda>(i, element) resultSet.
                  catchO
                    (bindO
                       (convertSingleValue d r element (elementTypeInfo typeInfo c cs)
                          (IndexOf memberName i) memberOpts)
                       (\<lambda>v. returnO (setAdd v resultSet)))
                    (\<lambda>e. bindO (report d e) (\<lambda>_. returnO resultSet)))
               (indexed (arrayElements sourceObject)) [])
            (\<lambda>resultSet. returnO (VSet resultSet))
      | _ \<Rightarrow>
          bindO (report d (MissingElementConstructor memberName ''Set''))
            (\<lambda>_. returnO (VSet [])))"
| "convertAsMap d r sourceObject typeInfo memberName memberOpts =
     bindO
       (if \<not> isArray sourceObject then
          bindO (liftO (constructorOf sourceObject)) (\<lambda>c.
            report d (UnexpectedType memberName (nameof CArray) (nameof c)))
        else returnO ())
       (\<lambda>_. case keyConstructor typeInfo of
          None \<Rightarrow>
            bindO (report d (MissingKeyConstructor memberName)) (\<lambda>_. returnO (VMap []))
        | Some kc \<Rightarrow>
            (case elementConstructor typeInfo of
               Some (c # cs) \<Rightarrow>
                 (case forEachItems sourceObject of
                    None \<Rightarrow> throwO (NotAFunction ''forEach'')
                  | Some elements \<Rightarrow>
                      bindO
                        (forEachO
                           (\<lambda>element resultMap.
                              catchO
                                (bindO (liftO (getProp element ''key'')) (\<lambda>rawKey.
                                   bindO
                                     (convertSingleValue d r rawKey (keyTypeInfo typeInfo kc)
                                        memberName memberOpts)
                                     (\<lambda>k.
                                        if isValueDefined k then
                                          bindO (liftO (getProp element ''value'')) (\<lambda>rawValue.
                                            bindO
                                              (convertSingleValue d r rawValue
                                                 (elementTypeInfo typeInfo c cs)
                                                 (KeyOf memberName k) memberOpts)
                                              (\<lambda>v. returnO (mapSet k v resultMap)))
                                        else returnO resultMap)))
                                (\<lambda>e. bindO (report d e) (\<lambda>_. returnO resultMap)))
                           elements [])
                        (\<lambda>resultMap. returnO (VMap resultMap)))
             | _ \<Rightarrow>
                 bindO (report d (MissingElementConstructor memberName ''Map''))
                   (\<lambda>_. returnO (VMap []))))"
  by pat_completeness auto

termination
proof (relation "measures
    [case_sum
       (case_sum (\<lambda>(d, r, s, t). weight s)
          (case_sum (\<lambda>(d, r, s, t). weight s) (\<lambda>(d, r, s, t). weight s)))
       (case_sum
          (case_sum (\<lambda>(d, r, s, t). weight s) (\<lambda>(d, r, s, t). weight s))
          (case_sum (\<lambda>(d, r, s, t). weight s) (\<lambda>(d, r, s, t). weight s))),
     case_sum (case_sum (\<lambda>a. 2) (case_sum (\<lambda>a. Suc 0) (\<lambda>a. 0))) (\<lambda>a. 0)]",
    goal_cases)
  case 1
  then show ?case by simp
next
  case 2
  then show ?case by simp
next
  case 3
  then show ?case by simp
next
  case 4
  then show ?case by simp
next
  case 5
  then show ?case by simp
next
  case 6
  then show ?case by simp
next
  case 7
  then show ?case by simp
next
  case 8
  then show ?case by (auto dest: weight_liftO_getProp)
next
  case 9
  then show ?case by (auto dest: weight_ownProps)
next
  case 10
  then show ?case by (auto dest: weight_arrayElements)
next
  case 11
  then show ?case by (auto dest: weight_indexed)
next
  case 12
  then show ?case
    by (auto dest!: weight_liftO_getProp dest: weight_forEachItems less_trans)
next
  case 13
  then show ?case
    by (auto dest!: weight_liftO_getProp dest: weight_forEachItems less_trans)
qed

declare convertSingleValue.simps [simp del]
declare convertAsObject.simps [simp del]
declare convertDataMembers.simps [simp del]
declare convertOwnProperties.simps [simp del]
declare convertAsArray.simps [simp del]
declare convertAsSet.simps [simp del]
declare convertAsMap.simps [simp del]


section \<open>Example configurations\<close>

text \<open>
  The element conversion of the host for the examples: an unsigned integer class stores
  a number truncated towards zero, modulo its width (0 for NaN and the infinities); the
  clamped class rounds to the nearest integer, ties to even, within 0 to 255; a floating
  point class stores a number as it is (the examples store none that a 32-bit float
  would round).
\<close>

definition storedAs :: "ctor \<Rightarrow> jsnum \<Rightarrow> jsnum" where
  "storedAs k n =
     (let modulo = (\<lambda>w::nat.
            case n of
              Finite q \<Rightarrow> Finite (of_int ((if q < 0 then - \<lfloor>- q\<rfloor> else \<lfloor>q\<rfloor>) mod 2 ^ w))
            | _ \<Rightarrow> Finite 0)
      in
      if k = CUint8Array then modulo 8
      else if k = CUint16Array then modulo 16
      else if k = CUint32Array then modulo 32
      else if k = CUint8ClampedArray then
        (case n of
           Finite q \<Rightarrow>
             (let f = \<lfloor>q\<rfloor>;
                  nearest = (if q - of_int f < 1 / 2 then f
                             else if 1 / 2 < q - of_int f then f + 1
                             else if even f then f else f + 1)
              in Finite (of_int (max 0 (min 255 nearest))))
         | PosInfinity \<Rightarrow> Finite 255
         | _ \<Rightarrow> Finite 0)
      else n)"

text \<open>
  A runtime with no registered class, whose constructors make empty instances, and a
  scope that names only the expected constructor. The examples below build on them.
\<close>

definition plainRuntime :: runtime where
  "plainRuntime =
     \<lparr>getFromConstructor = (\<lambda>c. None), construct = (\<lambda>c. Inr (VObj c [])),
      instanceMethod = (\<lambda>c n. None), staticMethod = (\<lambda>c n. None),
      coerceToNumber = (\<lambda>v. NaN), encodeElement = storedAs\<rparr>"

definition scopeOf :: "ctor \<Rightarrow> scopeTypeInfo" where
  "scopeOf c =
     \<lparr>selfConstructor = c, elementConstructor = None, keyConstructor = None, knownTypes = []\<rparr>"

section \<open>Notions used in the statements\<close>

text \<open>
  What an array slot holds after its element's conversion, and what the error handler has
  been called with by then: the converted value, or undefined and, last, the exception of
  a conversion that failed.
\<close>

definition elementSlot :: "jsval outcome \<Rightarrow> jsval" where
  "elementSlot out = (case fst out of Inr v \<Rightarrow> v | Inl e \<Rightarrow> VUndefined)"

definition elementReports :: "jsval outcome \<Rightarrow> error list" where
  "elementReports out = snd out @ (case fst out of Inr v \<Rightarrow> [] | Inl e \<Rightarrow> [e])"

text \<open>
  What convertAsMap makes of one pair of its source, in the words of the specification:
  the key is converted first; a key that converts to undefined or null gives no entry and
  no report beyond those its conversion made (\<open>lk\<close>); an exception of the key's or of the
  value's conversion (or of reading them) gives no entry and is reported; otherwise the
  entry is the converted key and value. The second component is what the error handler
  has been called with.
\<close>

definition pairEntry ::
  "deserializer \<Rightarrow> runtime \<Rightarrow> scopeTypeInfo \<Rightarrow> ctor \<Rightarrow> ctor \<Rightarrow> ctor list \<Rightarrow> label
     \<Rightarrow> optionsBase option \<Rightarrow> jsval \<Rightarrow> (jsval \<times> jsval) option \<times> error list" where
  "pairEntry d r typeInfo kc c cs memberName memberOpts element =
     (case getProp element ''key'' of
        Inl e \<Rightarrow> (None, [e])
      | Inr rawKey \<Rightarrow>
          (case convertSingleValue d r rawKey (keyTypeInfo typeInfo kc) memberName memberOpts of
             (Inl e, lk) \<Rightarrow> (None, lk @ [e])
           | (Inr k, lk) \<Rightarrow>
               if \<not> isValueDefined k then (None, lk)
               else
                 (case getProp element ''value'' of
                    Inl e \<Rightarrow> (None, lk @ [e])
                  | Inr rawValue \<Rightarrow>
                      (case convertSingleValue d r rawValue (elementTypeInfo typeInfo c cs)
                              (KeyOf memberName k) memberOpts of
                         (Inl e, lv) \<Rightarrow> (None, lk @ lv @ [e])
                       | (Inr v, lv) \<Rightarrow> (Some (k, v), lk @ lv)))))"

text \<open>\<^verbatim>\<open>resultMap.set\<close> of the entry a pair gave, if it gave one.\<close>

definition putEntry :: "(jsval \<times> jsval) list \<Rightarrow> (jsval \<times> jsval) option \<Rightarrow> (jsval \<times> jsval) list" where
  "putEntry m entry = (case entry of Some (k, v) \<Rightarrow> mapSet k v m | None \<Rightarrow> m)"

text \<open>
  Lines 105 to 239 of convertAsObject, for an expected type, metadata and known types
  that have been resolved: the strongly typed conversion when the metadata is explicitly
  marked, the untyped one otherwise.
\<close>

definition convertResolved ::
  "deserializer \<Rightarrow> runtime \<Rightarrow> jsval \<Rightarrow> scopeTypeInfo \<Rightarrow> label \<Rightarrow> ctor
     \<Rightarrow> objectMetadata option \<Rightarrow> (string \<times> ctor) list \<Rightarrow> jsval outcome" where
  "convertResolved d r sourceObject sourceObjectTypeInfo objectName expectedSelfType
     sourceObjectMetadata knownTypeConstructors =
     (case explicitlyMarked sourceObjectMetadata of
        Some sourceMetadata \<Rightarrow>
          bindO (convertDataMembers d r sourceObject sourceMetadata knownTypeConstructors)
            (\<lambda>staged. finishObject d r sourceObject sourceMetadata expectedSelfType
                        objectName staged)
      | None \<Rightarrow>
          bindO (convertOwnProperties d r sourceObject sourceObjectTypeInfo)
            (\<lambda>targetProps. returnO (VObj CObject targetProps)))"

text \<open>
  The target object of lines 154 to 195 before the properties are assigned: the checked
  result of the initializer callback, or the default-constructed instance.
\<close>

definition instantiatedTarget ::
  "runtime \<Rightarrow> objectMetadata \<Rightarrow> ctor \<Rightarrow> label \<Rightarrow> (string \<times> jsval) list \<Rightarrow> jsval
     \<Rightarrow> error + jsval" where
  "instantiatedTarget r sourceObjectMetadata expectedSelfType objectName staged sourceObject =
     (case initializerCallback sourceObjectMetadata of
        Some initializer \<Rightarrow>
          callInitializer sourceObjectMetadata objectName initializer staged sourceObject
      | None \<Rightarrow> instantiateType r expectedSelfType)"

text \<open>
  The exception of lines 167 to 184 for a result of the initializer callback that fails
  the check: the one of the two errors that applies, or the host's TypeError when the name
  for the message cannot be read.
\<close>

definition initializerRejection :: "label \<Rightarrow> objectMetadata \<Rightarrow> jsval \<Rightarrow> error" where
  "initializerRejection objectName sourceObjectMetadata targetObject =
     (if \<not> truthy targetObject then
        InvalidInitializerResult objectName None (nameof (classType sourceObjectMetadata))
      else case nameOfConstructor targetObject of
             Inr returned \<Rightarrow>
               InvalidInitializerResult objectName (Some returned)
                 (nameof (classType sourceObjectMetadata))
           | Inl e \<Rightarrow> e)"

text \<open>
  What a call returns that hands an error to the error handler and then returns \<open>v\<close>:
  \<open>v\<close>, unless the handler raises.
\<close>

definition handlerVerdict :: "deserializer \<Rightarrow> error \<Rightarrow> jsval \<Rightarrow> error + jsval" where
  "handlerVerdict d e v = (case errorHandler d e of None \<Rightarrow> Inr v | Some x \<Rightarrow> Inl x)"

text \<open>An outcome after earlier reports.\<close>

definition prependReports :: "error list \<Rightarrow> 'a outcome \<Rightarrow> 'a outcome" where
  "prependReports l out = (fst out, l @ snd out)"

section \<open>Example classes\<close>

text \<open>
  Example classes: Animal, Dog that extends Animal, and Car, each registered with one
  string member \<^verbatim>\<open>name\<close>; Animal declares Dog and Car as known types. The runtime is
  given the initializer callback and the hook name of Animal.
\<close>

definition animalClass :: ctor where
  "animalClass = CClass ''Animal'' CObject"

definition dogClass :: ctor where
  "dogClass = CClass ''Dog'' animalClass"

definition carClass :: ctor where
  "carClass = CClass ''Car'' CObject"

definition nameMember :: memberMetadata where
  "nameMember =
     \<lparr>key = ''name'', ctor = Some CString, elementType = None, keyType = None,
      isRequired = False, deserializer = None, memberOptions = None\<rparr>"

definition classMetadata ::
  "ctor \<Rightarrow> ctor list \<Rightarrow> ((string \<times> jsval) list \<Rightarrow> jsval \<Rightarrow> error + jsval) option
     \<Rightarrow> string option \<Rightarrow> objectMetadata" where
  "classMetadata c known init hook =
     \<lparr>classType = c, registeredName = Some (nameof c), isExplicitlyMarked = True,
      knownTypeSet = known, dataMembers = [(''name'', nameMember)],
      initializerCallback = init, onDeserializedMethodName = hook, classOptions = None\<rparr>"

definition zooRuntime ::
  "((string \<times> jsval) list \<Rightarrow> jsval \<Rightarrow> error + jsval) option \<Rightarrow> string option \<Rightarrow> runtime" where
  "zooRuntime init hook =
     plainRuntime\<lparr>getFromConstructor :=
       (\<lambda>c. if c = animalClass then Some (classMetadata animalClass [dogClass, carClass] init hook)
            else if c = dogClass then Some (classMetadata dogClass [] None None)
            else if c = carClass then Some (classMetadata carClass [] None None)
            else None)\<rparr>"


definition dogInitializer :: "(string \<times> jsval) list \<Rightarrow> jsval \<Rightarrow> error + jsval" where
  "dogInitializer staged sourceObject = Inr (VObj dogClass [])"

definition carInitializer :: "(string \<times> jsval) list \<Rightarrow> jsval \<Rightarrow> error + jsval" where
  "carInitializer staged sourceObject = Inr (VObj carClass [])"

text \<open>
  Sources: an object with the one property \<^verbatim>\<open>name\<close>, and the same with a type hint
  before it.
\<close>

definition plainRex :: jsval where
  "plainRex = VObj CObject [(''name'', VStr ''Rex'')]"

definition rex :: "string \<Rightarrow> jsval" where
  "rex hint = VObj CObject [(''__type'', VStr hint), (''name'', VStr ''Rex'')]"

text \<open>
  The source that the JSON text \<^verbatim>\<open>{"constructor": null}\<close> parses to, and an initializer
  that returns such an object.
\<close>

definition shadowed :: jsval where
  "shadowed = VObj CObject [(''constructor'', VNull)]"

definition shadowedInitializer :: "(string \<times> jsval) list \<Rightarrow> jsval \<Rightarrow> error + jsval" where
  "shadowedInitializer staged sourceObject = Inr shadowed"

definition zooKnownTypes :: "(string \<times> ctor) list" where
  "zooKnownTypes = [(''Dog'', dogClass), (''Car'', carClass)]"

section \<open>Basic facts\<close>

lemma instanceOf_examples:
  "instanceOf (VObj (CClass ''Dog'' (CClass ''Animal'' CObject)) []) (CClass ''Animal'' CObject)"
  "\<not> instanceOf (VObj (CClass ''Animal'' CObject) []) (CClass ''Dog'' (CClass ''Animal'' CObject))"
  "instanceOf (VArr []) CObject"
  "\<not> instanceOf (VStr ''x'') CString"
  by (simp_all add: instanceOf_def isSubtypeOf_def)

lemmas outcome_defs = returnO_def throwO_def liftO_def bindO_def catchO_def report_def

lemma bindO_returnO [simp]: "bindO (returnO x) f = f x"
  by (simp add: outcome_defs split: prod.splits)

lemma bindO_throwO [simp]: "bindO (throwO e) f = throwO e"
  by (simp add: outcome_defs)

lemma bindO_Inr: "bindO (Inr x, l) f = (fst (f x), l @ snd (f x))"
  by (simp add: outcome_defs split: prod.splits)

lemma bindO_Inl: "bindO (Inl e, l) f = (Inl e, l)"
  by (simp add: outcome_defs)

lemma liftO_Inr [simp]: "liftO (Inr x) = returnO x"
  by (simp add: outcome_defs)

lemma liftO_Inl [simp]: "liftO (Inl e) = throwO e"
  by (simp add: outcome_defs)

lemmas plain_defs = plainRuntime_def scopeOf_def newDeserializer_def retrievePreserveNull_def
  mergeOptions_def getOptionValue_preserveNull_def isValueDefined_def srcTypeName_def
  nameOfConstructor_def isDirectlyDeserializableNativeType_def

text \<open>
  Reading the name of a value's constructor raises only for an object whose own property
  \<^verbatim>\<open>constructor\<close> is null or undefined, and then the host's TypeError.
\<close>

lemma nameOfConstructor_raises:
  assumes "nameOfConstructor v = Inl e" and "isValueDefined v"
  shows "e = NullDereference ''name'' \<and> (\<exists>fn. ownConstructor v = Some fn \<and> \<not> isValueDefined fn)"
proof (cases "ownConstructor v")
  case None
  then show ?thesis
    using assms by (cases v) (simp_all add: nameOfConstructor_def isValueDefined_def)
next
  case (Some fn)
  then show ?thesis
    using assms
    by (auto simp: nameOfConstructor_def nameofValue_def getProp_def
          split: if_splits option.splits sum.splits jsval.splits)
qed

lemma srcTypeName_raises:
  assumes "srcTypeName v = Inl e"
  shows "e = NullDereference ''name'' \<and> (\<exists>fn. ownConstructor v = Some fn \<and> \<not> isValueDefined fn)"
proof -
  have t: "truthy v" and n: "nameOfConstructor v = Inl e"
    using assms by (auto simp: srcTypeName_def split: if_splits)
  have "isValueDefined v" using t by (cases v) (simp_all add: isValueDefined_def)
  then show ?thesis using n by (rule nameOfConstructor_raises [rotated])
qed

lemma nameOfConstructor_shadowed:
  assumes "ownConstructor v = Some fn" and "\<not> isValueDefined fn"
  shows "nameOfConstructor v = Inl (NullDereference ''name'')"
  using assms by (simp add: nameOfConstructor_def nameofValue_def getProp_def)

lemma srcTypeName_characterised:
  "case srcTypeName v of
     Inl e \<Rightarrow> e = NullDereference ''name''
              \<and> (\<exists>fn. ownConstructor v = Some fn \<and> \<not> isValueDefined fn)
   | Inr actual \<Rightarrow> \<not> (\<exists>fn. ownConstructor v = Some fn \<and> \<not> isValueDefined fn)"
proof (cases "srcTypeName v")
  case (Inl e)
  then show ?thesis using srcTypeName_raises [OF Inl] by simp
next
  case (Inr actual)
  have "\<not> (\<exists>fn. ownConstructor v = Some fn \<and> \<not> isValueDefined fn)"
  proof
    assume "\<exists>fn. ownConstructor v = Some fn \<and> \<not> isValueDefined fn"
    then obtain fn where f: "ownConstructor v = Some fn" "\<not> isValueDefined fn" by blast
    then have "truthy v" by (cases v) simp_all
    then show False
      using Inr nameOfConstructor_shadowed [OF f] by (simp add: srcTypeName_def)
  qed
  then show ?thesis using Inr by simp
qed

lemma srcTypeName_inherited:
  "ownConstructor v = None \<Longrightarrow>
     srcTypeName v = Inr (if truthy v then (case constructorOf v of Inr c \<Rightarrow> nameof c | Inl e \<Rightarrow> [])
                          else ''undefined'')"
  by (cases v) (simp_all add: srcTypeName_def nameOfConstructor_def)

section \<open>The policy setters\<close>

lemma setTypeResolver_validates:
  "setTypeResolver (NotCallable v) d = Inl (InvalidCallback ''typeResolverCallback'')"
  by (simp add: setTypeResolver_def)

lemma setErrorHandler_validates:
  "setErrorHandler (NotCallable v) d = Inl (InvalidCallback ''errorHandlerCallback'')"
  by (simp add: setErrorHandler_def)

lemma setNameResolver_never_raises:
  "setNameResolver cb d = Inr (d\<lparr>nameResolver := cb\<rparr>)"
  by (simp add: setNameResolver_def)

text \<open>
  C8. Each of the three policy setters is claimed to check that its argument is callable
  and to raise InvalidCallback otherwise, leaving the installed policy in place.
  \<^verbatim>\<open>setTypeResolver\<close> and \<^verbatim>\<open>setErrorHandler\<close> do; \<^verbatim>\<open>setNameResolver\<close> stores its
  argument unchecked. Handed the number 42 it raises nothing and replaces the name
  resolver by 42, and the next use of the name resolver raises the host's TypeError.
\<close>

theorem setNameResolver_stores_non_callable:
  "setNameResolver (NotCallable (VNum (Finite 42))) newDeserializer
     = Inr (newDeserializer\<lparr>nameResolver := NotCallable (VNum (Finite 42))\<rparr>)
   \<and> resolveName (newDeserializer\<lparr>nameResolver := NotCallable (VNum (Finite 42))\<rparr>) CObject
     = Some (Inl (NotAFunction ''_nameResolver''))
   \<and> setTypeResolver (NotCallable (VNum (Finite 42))) newDeserializer
     = Inl (InvalidCallback ''typeResolverCallback'')
   \<and> setErrorHandler (NotCallable (VNum (Finite 42))) newDeserializer
     = Inl (InvalidCallback ''errorHandlerCallback'')"
  by (simp add: setNameResolver_def setTypeResolver_def setErrorHandler_def resolveName_def)

section \<open>Dates\<close>

text \<open>
  C5, as amended. When the expected type is Date, convertSingleValue returns
  \<^verbatim>\<open>new Date(source)\<close> for every string, whatever its format, and for every positive
  number; it returns null or undefined for a null or undefined source (null only under
  preserveNull); for every other source it raises: TypeMismatch, or, when the name of the
  source's type cannot be read because the source is an object whose own property
  \<^verbatim>\<open>constructor\<close> is null or undefined, the host's TypeError of that read.
\<close>

theorem convertSingleValue_Date:
  assumes "selfConstructor typeInfo = CDate"
  shows "convertSingleValue d r sourceObject typeInfo memberName memberOpts =
     (if retrievePreserveNull d memberOpts \<and> sourceObject = VNull then (Inr VNull, [])
      else if \<not> isValueDefined sourceObject then (Inr VUndefined, [])
      else if isString sourceObject \<or> isPositiveNumber sourceObject
      then (Inr (VDate sourceObject), [])
      else case srcTypeName sourceObject of
             Inr actual \<Rightarrow>
               (Inl (TypeMismatch memberName ''Date'' ''an ISO-8601 string'' actual), [])
           | Inl e \<Rightarrow> (Inl e, []))
   \<and> (case srcTypeName sourceObject of
        Inl e \<Rightarrow> e = NullDereference ''name''
                 \<and> (\<exists>fn. ownConstructor sourceObject = Some fn \<and> \<not> isValueDefined fn)
      | Inr actual \<Rightarrow>
          \<not> (\<exists>fn. ownConstructor sourceObject = Some fn \<and> \<not> isValueDefined fn))"
proof -
  have "convertSingleValue d r sourceObject typeInfo memberName memberOpts =
     (if retrievePreserveNull d memberOpts \<and> sourceObject = VNull then (Inr VNull, [])
      else if \<not> isValueDefined sourceObject then (Inr VUndefined, [])
      else if isString sourceObject \<or> isPositiveNumber sourceObject
      then (Inr (VDate sourceObject), [])
      else case srcTypeName sourceObject of
             Inr actual \<Rightarrow>
               (Inl (TypeMismatch memberName ''Date'' ''an ISO-8601 string'' actual), [])
           | Inl e \<Rightarrow> (Inl e, []))"
  proof (cases "ownConstructor sourceObject")
    case None
    show ?thesis
      using assms
      by (simp add: convertSingleValue.simps srcTypeName_inherited [OF None]
            isDirectlyDeserializableNativeType_def throwTypeMismatchError_def bindO_Inr
            outcome_defs Let_def cong: if_cong)
  next
    case (Some fn)
    then obtain c ps where v: "sourceObject = VObj c ps" by (cases sourceObject) simp_all
    show ?thesis
      using assms
      by (simp add: v convertSingleValue.simps isDirectlyDeserializableNativeType_def
            isValueDefined_def throwTypeMismatchError_def outcome_defs Let_def
            split: sum.splits)
  qed
  then show ?thesis using srcTypeName_characterised [of sourceObject] by simp
qed

text \<open>
  The theorem at a positive timestamp, which becomes a Date, at a boolean, which raises
  TypeMismatch, and at an object whose own \<^verbatim>\<open>constructor\<close> is null, which raises the
  host's TypeError.
\<close>

theorem convertSingleValue_Date_witness:
  "selfConstructor (scopeOf CDate) = CDate \<and>
   convertSingleValue newDeserializer plainRuntime (VNum (Finite 1577934245000)) (scopeOf CDate)
     (Named ''object'') None = (Inr (VDate (VNum (Finite 1577934245000))), []) \<and>
   convertSingleValue newDeserializer plainRuntime (VBool True) (scopeOf CDate)
     (Named ''object'') None
     = (Inl (TypeMismatch (Named ''object'') ''Date'' ''an ISO-8601 string'' ''Boolean''), []) \<and>
   srcTypeName shadowed = Inl (NullDereference ''name'') \<and>
   ownConstructor shadowed = Some VNull \<and>
   convertSingleValue newDeserializer plainRuntime shadowed (scopeOf CDate)
     (Named ''object'') None = (Inl (NullDereference ''name''), [])"
proof -
  have s: "srcTypeName (VBool True) = Inr ''Boolean''"
    "srcTypeName shadowed = Inl (NullDereference ''name'')"
    "ownConstructor shadowed = Some VNull"
    by (simp_all add: srcTypeName_def nameOfConstructor_def nameofValue_def getProp_def
          isValueDefined_def shadowed_def)
  have p: "\<not> retrievePreserveNull newDeserializer None"
    by (simp add: retrievePreserveNull_def newDeserializer_def mergeOptions_def
          getOptionValue_preserveNull_def)
  have v: "isValueDefined (VNum (Finite 1577934245000))" "isValueDefined (VBool True)"
    "isValueDefined shadowed" "\<not> isString shadowed" "\<not> isPositiveNumber shadowed"
    by (simp_all add: isValueDefined_def shadowed_def)
  have c: "selfConstructor (scopeOf CDate) = CDate" by (simp add: scopeOf_def)
  show ?thesis
    using convertSingleValue_Date [OF c, of newDeserializer plainRuntime
        "VNum (Finite 1577934245000)" "Named ''object''" None, THEN conjunct1]
      convertSingleValue_Date [OF c, of newDeserializer plainRuntime
        "VBool True" "Named ''object''" None, THEN conjunct1]
      convertSingleValue_Date [OF c, of newDeserializer plainRuntime
        shadowed "Named ''object''" None, THEN conjunct1] s p v c
    by simp
qed

text \<open>
  C5 as stated fails: a string that is no ISO-8601 date is accepted and handed to the Date
  constructor; no TypeMismatch is raised. Nor is it raised for null, which converts to
  undefined, or for an object whose own \<^verbatim>\<open>constructor\<close> is null, which raises the
  host's TypeError.
\<close>

theorem convertSingleValue_Date_counterexample:
  "convertSingleValue newDeserializer plainRuntime (VStr ''not a date'') (scopeOf CDate)
     (Named ''object'') None = (Inr (VDate (VStr ''not a date'')), [])
   \<and> convertSingleValue newDeserializer plainRuntime VNull (scopeOf CDate)
     (Named ''object'') None = (Inr VUndefined, [])
   \<and> convertSingleValue newDeserializer plainRuntime shadowed (scopeOf CDate)
     (Named ''object'') None = (Inl (NullDereference ''name''), [])"
  by (simp add: convertSingleValue.simps plain_defs shadowed_def nameofValue_def getProp_def
        throwTypeMismatchError_def outcome_defs)

section \<open>Typed arrays\<close>

text \<open>
  The dispatch of convertSingleValue has a branch for six of the nine typed array classes
  that \<^verbatim>\<open>isTypeTypedArray\<close> of helpers lists. An Int8Array, Int16Array or Int32Array
  member falls through to the last branch: its source array is converted as an object,
  with no test of the elements and no typed array made.
\<close>

lemma signed_typed_arrays_have_no_branch:
  assumes "K \<in> set [CInt8Array, CInt16Array, CInt32Array]"
    and "selfConstructor typeInfo = K"
  shows "convertSingleValue d r (VArr xs) typeInfo memberName memberOpts
           = convertAsObject d r (VArr xs) typeInfo memberName memberOpts"
  using assms
  by (auto simp: convertSingleValue.simps srcTypeName_def nameOfConstructor_def
        isValueDefined_def isDirectlyDeserializableNativeType_def)




section \<open>Arrays\<close>

lemma mapO_total:
  "(\<And>x. x \<in> set xs \<Longrightarrow> f x = (Inr (a x), l x))
     \<Longrightarrow> mapO f xs = (Inr (map a xs), concat (map l xs))"
  by (induction xs) (simp_all add: returnO_def bindO_def)

lemma catch_report_total:
  assumes "\<forall>e. errorHandler d e = None"
  shows "catchO m (\<lambda>e. bindO (report d e) (\<lambda>_. returnO VUndefined))
           = (Inr (elementSlot m), elementReports m)"
proof (cases m)
  case (Pair res l)
  then show ?thesis
    using assms
    by (cases res) (simp_all add: outcome_defs elementSlot_def elementReports_def)
qed

text \<open>
  C2, as amended. For every input array, when the type information names an element type
  and the error handler returns, convertAsArray returns an array of exactly the same
  length with the elements in the same order: slot \<open>i\<close> holds the converted element \<open>i\<close>,
  or undefined when its conversion raised, and every such exception has been handed to
  the error handler, in element order.
\<close>

theorem convertAsArray_keeps_length_and_order:
  assumes "\<forall>e. errorHandler d e = None"
    and "elementConstructor typeInfo = Some (c # cs)"
  shows "convertAsArray d r (VArr xs) typeInfo memberName memberOpts =
     (Inr (VArr (map (\<lambda>x. elementSlot (convertSingleValue d r x
                          (elementTypeInfo typeInfo c cs) (ElemOf memberName) memberOpts)) xs)),
      concat (map (\<lambda>x. elementReports (convertSingleValue d r x
                          (elementTypeInfo typeInfo c cs) (ElemOf memberName) memberOpts)) xs))
   \<and> (\<exists>out l. convertAsArray d r (VArr xs) typeInfo memberName memberOpts = (Inr (VArr out), l)
        \<and> length out = length xs)"
proof -
  have "mapO (\<lambda>element. catchO (convertSingleValue d r element (elementTypeInfo typeInfo c cs)
                 (ElemOf memberName) memberOpts)
               (\<lambda>e. bindO (report d e) (\<lambda>_. returnO VUndefined))) xs
      = (Inr (map (\<lambda>x. elementSlot (convertSingleValue d r x
                          (elementTypeInfo typeInfo c cs) (ElemOf memberName) memberOpts)) xs),
         concat (map (\<lambda>x. elementReports (convertSingleValue d r x
                          (elementTypeInfo typeInfo c cs) (ElemOf memberName) memberOpts)) xs))"
    by (rule mapO_total) (simp add: catch_report_total [OF assms(1)])
  then have "convertAsArray d r (VArr xs) typeInfo memberName memberOpts =
     (Inr (VArr (map (\<lambda>x. elementSlot (convertSingleValue d r x
                          (elementTypeInfo typeInfo c cs) (ElemOf memberName) memberOpts)) xs)),
      concat (map (\<lambda>x. elementReports (convertSingleValue d r x
                          (elementTypeInfo typeInfo c cs) (ElemOf memberName) memberOpts)) xs))"
    using assms(2) by (simp add: convertAsArray.simps bindO_Inr returnO_def)
  then show ?thesis by simp
qed

text \<open>
  The theorem at the specification's example: 1, "bad", 3 against Number gives
  1, undefined, 3 and one reported error.
\<close>

theorem convertAsArray_keeps_length_and_order_witness:
  "(\<forall>e. errorHandler newDeserializer e = None) \<and>
   elementConstructor ((scopeOf CArray)\<lparr>elementConstructor := Some [CNumber]\<rparr>)
     = Some (CNumber # []) \<and>
   convertAsArray newDeserializer plainRuntime
     (VArr [VNum (Finite 1), VStr ''bad'', VNum (Finite 3)])
     ((scopeOf CArray)\<lparr>elementConstructor := Some [CNumber]\<rparr>) (Named ''object'') None
     = (Inr (VArr [VNum (Finite 1), VUndefined, VNum (Finite 3)]),
        [UnexpectedType (ElemOf (Named ''object'')) ''Number'' ''String''])"
  using convertAsArray_keeps_length_and_order [of newDeserializer
      "(scopeOf CArray)\<lparr>elementConstructor := Some [CNumber]\<rparr>" CNumber "[]" plainRuntime
      "[VNum (Finite 1), VStr ''bad'', VNum (Finite 3)]" "Named ''object''" None]
  by (simp add: convertSingleValue.simps plain_defs elementTypeInfo_def elementSlot_def
        elementReports_def outcome_defs)

text \<open>
  C2 as stated fails: without an element type in the type information, a two-element
  array converts to the empty array.
\<close>

theorem convertAsArray_keeps_length_counterexample:
  "convertAsArray newDeserializer plainRuntime (VArr [VNum (Finite 1), VNum (Finite 2)])
     (scopeOf CArray) (Named ''object'') None
     = (Inr (VArr []), [MissingElementConstructor (Named ''object'') ''Array''])"
  by (simp add: convertAsArray.simps plain_defs outcome_defs)

section \<open>Maps\<close>

lemma forEachO_total:
  "(\<And>x acc. x \<in> set xs \<Longrightarrow> f x acc = (Inr (g acc x), l x))
     \<Longrightarrow> forEachO f xs acc = (Inr (foldl g acc xs), concat (map l xs))"
proof (induction xs arbitrary: acc)
  case Nil
  then show ?case by (simp add: returnO_def)
next
  case (Cons x xs)
  have "f x acc = (Inr (g acc x), l x)" using Cons.prems by simp
  moreover have "forEachO f xs (g acc x) = (Inr (foldl g (g acc x) xs), concat (map l xs))"
    using Cons.IH Cons.prems by simp
  ultimately show ?case by (simp add: bindO_Inr)
qed

lemma map_pair_step:
  assumes "\<forall>e. errorHandler d e = None"
  shows "catchO
           (bindO (liftO (getProp element ''key'')) (\<lambda>rawKey.
              bindO (convertSingleValue d r rawKey (keyTypeInfo typeInfo kc) memberName memberOpts)
                (\<lambda>k. if isValueDefined k then
                        bindO (liftO (getProp element ''value'')) (\<lambda>rawValue.
                          bindO (convertSingleValue d r rawValue (elementTypeInfo typeInfo c cs)
                                   (KeyOf memberName k) memberOpts)
                            (\<lambda>v. returnO (mapSet k v resultMap)))
                      else returnO resultMap)))
           (\<lambda>e. bindO (report d e) (\<lambda>_. returnO resultMap))
         = (Inr (putEntry resultMap
                   (fst (pairEntry d r typeInfo kc c cs memberName memberOpts element))),
            snd (pairEntry d r typeInfo kc c cs memberName memberOpts element))"
  using assms
  by (auto simp: outcome_defs pairEntry_def putEntry_def split: sum.splits prod.splits)







section \<open>Untyped objects\<close>

lemma forEachO_throws:
  "x \<in> set xs \<Longrightarrow> (\<And>acc. \<exists>e l. f x acc = (Inl e, l))
     \<Longrightarrow> \<exists>e l. forEachO f xs acc = (Inl e, l)"
proof (induction xs arbitrary: acc)
  case Nil
  then show ?case by simp
next
  case (Cons y ys)
  obtain res l where fy: "f y acc = (res, l)" by (cases "f y acc")
  show ?case
  proof (cases res)
    case (Inl e)
    then show ?thesis using fy by (simp add: bindO_Inl)
  next
    case (Inr acc')
    then have "x \<noteq> y" using fy Cons.prems(2) [of acc] by auto
    then have "x \<in> set ys" using Cons.prems(1) by simp
    then obtain e' l' where "forEachO f ys acc' = (Inl e', l')"
      using Cons.IH Cons.prems(2) by blast
    then show ?thesis using fy Inr by (simp add: bindO_Inr)
  qed
qed

text \<open>
  C10. In the untyped branch of convertAsObject (the resolved metadata is absent or not
  explicitly marked), the conversion reads the constructor of every own property value of
  the source; if an own property holds null or undefined, the call raises instead of
  returning a plain object. So the branch returns only when every own property value is
  defined.
\<close>

theorem passthrough_rejects_undefined_property:
  assumes "typeofObject sourceObject" and "sourceObject \<noteq> VNull"
    and "resolveSelfType d r sourceObject sourceObjectTypeInfo = Inr (T, smd, kt)"
    and "explicitlyMarked smd = None"
    and "(k, x) \<in> set (ownProps sourceObject)"
    and "\<not> isValueDefined x"
  shows "\<exists>e l. convertAsObject d r sourceObject sourceObjectTypeInfo objectName memberOpts
           = (Inl e, l)"
proof -
  have cx: "constructorOf x = Inl (NullDereference ''constructor'')"
    using assms(6) by (cases x) (auto simp: isValueDefined_def)
  have "\<exists>e l. convertOwnProperties d r sourceObject sourceObjectTypeInfo = (Inl e, l)"
    unfolding convertOwnProperties.simps
    by (rule forEachO_throws [OF assms(5)]) (simp add: cx bindO_Inl throwO_def)
  then obtain e l where "convertOwnProperties d r sourceObject sourceObjectTypeInfo = (Inl e, l)"
    by blast
  then show ?thesis
    using assms(1-4)
    by (simp add: convertAsObject.simps bindO_Inl)
qed

text \<open>
  The theorem at the object with the properties a = 1 and b = null: the exception is the
  host's TypeError for reading \<^verbatim>\<open>constructor\<close> of null.
\<close>

theorem passthrough_rejects_undefined_property_witness:
  "typeofObject (VObj CObject [(''a'', VNum (Finite 1)), (''b'', VNull)]) \<and>
   VObj CObject [(''a'', VNum (Finite 1)), (''b'', VNull)] \<noteq> VNull \<and>
   resolveSelfType newDeserializer plainRuntime
     (VObj CObject [(''a'', VNum (Finite 1)), (''b'', VNull)]) (scopeOf CObject)
     = Inr (CObject, None, []) \<and>
   explicitlyMarked None = None \<and>
   (''b'', VNull) \<in> set (ownProps (VObj CObject [(''a'', VNum (Finite 1)), (''b'', VNull)])) \<and>
   \<not> isValueDefined VNull \<and>
   (\<exists>e l. convertAsObject newDeserializer plainRuntime
            (VObj CObject [(''a'', VNum (Finite 1)), (''b'', VNull)]) (scopeOf CObject)
            (Named ''object'') None = (Inl e, l)) \<and>
   convertAsObject newDeserializer plainRuntime
     (VObj CObject [(''a'', VNum (Finite 1)), (''b'', VNull)]) (scopeOf CObject)
     (Named ''object'') None = (Inl (NullDereference ''constructor''), [])"
proof -
  have h: "resolveSelfType newDeserializer plainRuntime
     (VObj CObject [(''a'', VNum (Finite 1)), (''b'', VNull)]) (scopeOf CObject)
     = Inr (CObject, None, [])"
    by (simp add: resolveSelfType_def mergeOwnKnownTypes_def plain_defs defaultTypeResolver_def
          getProp_def)
  have v: "convertAsObject newDeserializer plainRuntime
     (VObj CObject [(''a'', VNum (Finite 1)), (''b'', VNull)]) (scopeOf CObject)
     (Named ''object'') None = (Inl (NullDereference ''constructor''), [])"
  proof -
    have "convertOwnProperties newDeserializer plainRuntime
        (VObj CObject [(''a'', VNum (Finite 1)), (''b'', VNull)]) (scopeOf CObject)
        = (Inl (NullDereference ''constructor''), [])"
      by (simp add: convertOwnProperties.simps convertSingleValue.simps plain_defs outcome_defs)
    then show ?thesis
      by (simp add: convertAsObject.simps h explicitlyMarked_def bindO_Inl)
  qed
  show ?thesis
    using h v passthrough_rejects_undefined_property [of
        "VObj CObject [(''a'', VNum (Finite 1)), (''b'', VNull)]" newDeserializer plainRuntime
        "scopeOf CObject" CObject None "[]" "''b''" VNull "Named ''object''" None]
    by (simp add: explicitlyMarked_def isValueDefined_def)
qed

section \<open>Typed objects\<close>

lemmas zoo_defs = zooRuntime_def classMetadata_def nameMember_def animalClass_def dogClass_def
  carClass_def rex_def plainRex_def zooKnownTypes_def dogInitializer_def carInitializer_def

lemma convertAsObject_typed:
  assumes "typeofObject sourceObject" and "sourceObject \<noteq> VNull"
    and "resolveSelfType d r sourceObject sourceObjectTypeInfo = Inr (T, smd, kt)"
    and "explicitlyMarked smd = Some md"
    and "convertDataMembers d r sourceObject md kt = (Inr staged, l1)"
  shows "convertAsObject d r sourceObject sourceObjectTypeInfo objectName memberOpts
           = prependReports l1 (finishObject d r sourceObject md T objectName staged)"
  using assms by (simp add: convertAsObject.simps bindO_Inr prependReports_def)

lemma zoo_resolve:
  "resolveSelfType newDeserializer (zooRuntime init hook) plainRex (scopeOf animalClass)
     = Inr (animalClass, Some (classMetadata animalClass [dogClass, carClass] init hook),
            zooKnownTypes)"
  by (simp add: resolveSelfType_def mergeOwnKnownTypes_def createKnownTypesMap_def
        mergeKnownTypes_def resolveName_def knownTypeName_def defaultTypeResolver_def
        getProp_def isSubtypeOf_def zoo_defs plain_defs Let_def)

lemma zoo_members:
  "convertDataMembers newDeserializer (zooRuntime init hook) plainRex
     (classMetadata animalClass [dogClass, carClass] init hook) zooKnownTypes
     = (Inr [(''name'', VStr ''Rex'')], [])"
  by (simp add: convertDataMembers.simps convertSingleValue.simps getProp_def zoo_defs plain_defs
        outcome_defs)

lemma convertAsObject_resolved:
  assumes "typeofObject sourceObject" and "sourceObject \<noteq> VNull"
    and "resolveSelfType d r sourceObject sourceObjectTypeInfo = Inr (T, smd, kt)"
  shows "convertAsObject d r sourceObject sourceObjectTypeInfo objectName memberOpts
           = convertResolved d r sourceObject sourceObjectTypeInfo objectName T smd kt"
  using assms by (simp add: convertAsObject.simps convertResolved_def)

lemma convertAsObject_unresolved:
  assumes "typeofObject sourceObject" and "sourceObject \<noteq> VNull"
    and "resolveSelfType d r sourceObject sourceObjectTypeInfo = Inl e"
  shows "convertAsObject d r sourceObject sourceObjectTypeInfo objectName memberOpts = (Inl e, [])"
  using assms by (simp add: convertAsObject.simps) (simp add: throwO_def)

text \<open>
  C3. In convertAsObject, if the type-hint resolver yields a constructor that is the
  expected type itself or a subtype of it, the expected type is switched to that
  constructor, its class metadata is fetched and its known types are merged in; a hint
  that resolves to a constructor that is not a subtype of the expected type is ignored
  without any error, and the value is converted as the statically declared type, exactly
  as when the resolver yields nothing.
\<close>

theorem type_hint_resolution:
  assumes "typeofObject sourceObject" and "sourceObject \<noteq> VNull"
    and "mergeOwnKnownTypes d r (knownTypes sourceObjectTypeInfo)
           (getFromConstructor r (selfConstructor sourceObjectTypeInfo)) = Inr kt0"
  shows "convertAsObject d r sourceObject sourceObjectTypeInfo objectName memberOpts =
     (case typeResolver d sourceObject kt0 of
        None \<Rightarrow>
          convertResolved d r sourceObject sourceObjectTypeInfo objectName
            (selfConstructor sourceObjectTypeInfo)
            (getFromConstructor r (selfConstructor sourceObjectTypeInfo)) kt0
      | Some typeFromTypeHint \<Rightarrow>
          if isSubtypeOf typeFromTypeHint (selfConstructor sourceObjectTypeInfo) then
            (case mergeOwnKnownTypes d r kt0 (getFromConstructor r typeFromTypeHint) of
               Inr kt1 \<Rightarrow>
                 convertResolved d r sourceObject sourceObjectTypeInfo objectName
                   typeFromTypeHint (getFromConstructor r typeFromTypeHint) kt1
             | Inl e \<Rightarrow> (Inl e, []))
          else
            convertResolved d r sourceObject sourceObjectTypeInfo objectName
              (selfConstructor sourceObjectTypeInfo)
              (getFromConstructor r (selfConstructor sourceObjectTypeInfo)) kt0)"
proof (cases "resolveSelfType d r sourceObject sourceObjectTypeInfo")
  case (Inl e)
  then show ?thesis
    using assms(3) convertAsObject_unresolved [OF assms(1,2) Inl]
    by (auto simp: resolveSelfType_def Let_def split: option.splits if_splits sum.splits)
next
  case (Inr t)
  obtain T smd kt where t: "t = (T, smd, kt)" by (cases t)
  show ?thesis
    using assms(3) Inr t convertAsObject_resolved [OF assms(1,2), of d r sourceObjectTypeInfo T smd kt]
    by (auto simp: resolveSelfType_def Let_def split: option.splits if_splits sum.splits)
qed

text \<open>
  The theorem at an Animal scope: the hint Car, a known type that is no subtype of Animal,
  is ignored; the hint Dog switches the expected type to Dog.
\<close>

theorem type_hint_resolution_witness:
  "typeofObject (rex ''Car'') \<and> rex ''Car'' \<noteq> VNull \<and>
   mergeOwnKnownTypes newDeserializer (zooRuntime None None) (knownTypes (scopeOf animalClass))
     (getFromConstructor (zooRuntime None None) (selfConstructor (scopeOf animalClass)))
     = Inr zooKnownTypes \<and>
   typeResolver newDeserializer (rex ''Car'') zooKnownTypes = Some carClass \<and>
   \<not> isSubtypeOf carClass animalClass \<and>
   convertAsObject newDeserializer (zooRuntime None None) (rex ''Car'') (scopeOf animalClass)
     (Named ''object'') None
     = convertResolved newDeserializer (zooRuntime None None) (rex ''Car'') (scopeOf animalClass)
         (Named ''object'') animalClass (getFromConstructor (zooRuntime None None) animalClass)
         zooKnownTypes \<and>
   typeResolver newDeserializer (rex ''Dog'') zooKnownTypes = Some dogClass \<and>
   isSubtypeOf dogClass animalClass \<and>
   convertAsObject newDeserializer (zooRuntime None None) (rex ''Dog'') (scopeOf animalClass)
     (Named ''object'') None
     = convertResolved newDeserializer (zooRuntime None None) (rex ''Dog'') (scopeOf animalClass)
         (Named ''object'') dogClass (getFromConstructor (zooRuntime None None) dogClass)
         zooKnownTypes"
proof -
  have m: "mergeOwnKnownTypes newDeserializer (zooRuntime None None)
      (knownTypes (scopeOf animalClass))
      (getFromConstructor (zooRuntime None None) (selfConstructor (scopeOf animalClass)))
      = Inr zooKnownTypes"
    by (simp add: mergeOwnKnownTypes_def createKnownTypesMap_def mergeKnownTypes_def
          resolveName_def knownTypeName_def zoo_defs plain_defs)
  have m': "mergeOwnKnownTypes newDeserializer (zooRuntime None None) zooKnownTypes
      (getFromConstructor (zooRuntime None None) dogClass) = Inr zooKnownTypes"
    by (simp add: mergeOwnKnownTypes_def createKnownTypesMap_def mergeKnownTypes_def
          resolveName_def knownTypeName_def zoo_defs plain_defs)
  have t: "typeResolver newDeserializer (rex ''Car'') zooKnownTypes = Some carClass"
    "typeResolver newDeserializer (rex ''Dog'') zooKnownTypes = Some dogClass"
    by (simp_all add: newDeserializer_def defaultTypeResolver_def getProp_def isValueDefined_def
          zoo_defs)
  have s: "\<not> isSubtypeOf carClass animalClass" "isSubtypeOf dogClass animalClass"
    by (simp_all add: isSubtypeOf_def zoo_defs)
  have o: "typeofObject (rex ''Car'')" "rex ''Car'' \<noteq> VNull"
    "typeofObject (rex ''Dog'')" "rex ''Dog'' \<noteq> VNull"
    by (simp_all add: rex_def)
  show ?thesis
    using type_hint_resolution [OF o(1,2) m, of "Named ''object''" None]
      type_hint_resolution [OF o(3,4) m, of "Named ''object''" None] m m' t s o
    by (simp add: scopeOf_def)
qed

text \<open>
  C1, as amended. In convertAsObject, when an initializer callback is registered, its
  result is checked to be truthy and an instance of the metadata's class, where an
  instance of a proper subtype passes; the properties are then assigned to it. When the
  check fails, InvalidInitializerResult is handed to the error handler, and the conversion
  of the object returns undefined if the handler returns. The one result that fails the
  check with another error is an object whose own property \<^verbatim>\<open>constructor\<close> is null or
  undefined: the host's TypeError, raised while the message is made, is what is handed to
  the error handler.
\<close>

theorem initializer_result_validation:
  assumes "typeofObject sourceObject" and "sourceObject \<noteq> VNull"
    and "resolveSelfType d r sourceObject sourceObjectTypeInfo = Inr (T, smd, kt)"
    and "explicitlyMarked smd = Some md"
    and "convertDataMembers d r sourceObject md kt = (Inr staged, l1)"
    and "initializerCallback md = Some initializer"
  shows "convertAsObject d r sourceObject sourceObjectTypeInfo objectName memberOpts =
     (case initializer staged sourceObject of
        Inl e \<Rightarrow> (handlerVerdict d e VUndefined, l1 @ [e])
      | Inr targetObject \<Rightarrow>
          if truthy targetObject \<and> instanceOf targetObject (classType md) then
            prependReports l1 (notifyDeserialized d r md (objectAssign targetObject staged))
          else
            (handlerVerdict d (initializerRejection objectName md targetObject) VUndefined,
             l1 @ [initializerRejection objectName md targetObject]))
   \<and> (\<forall>targetObject.
        if \<exists>fn. ownConstructor targetObject = Some fn \<and> \<not> isValueDefined fn
        then initializerRejection objectName md targetObject = NullDereference ''name''
        else \<exists>returned. initializerRejection objectName md targetObject
               = InvalidInitializerResult objectName returned (nameof (classType md)))"
proof -
  have "convertAsObject d r sourceObject sourceObjectTypeInfo objectName memberOpts =
     (case initializer staged sourceObject of
        Inl e \<Rightarrow> (handlerVerdict d e VUndefined, l1 @ [e])
      | Inr targetObject \<Rightarrow>
          if truthy targetObject \<and> instanceOf targetObject (classType md) then
            prependReports l1 (notifyDeserialized d r md (objectAssign targetObject staged))
          else
            (handlerVerdict d (initializerRejection objectName md targetObject) VUndefined,
             l1 @ [initializerRejection objectName md targetObject]))"
    unfolding convertAsObject_typed [OF assms(1-5)]
    using assms(6)
    by (auto simp: finishObject_def callInitializer_def initializerRejection_def
          prependReports_def handlerVerdict_def outcome_defs split: sum.splits option.splits)
  moreover have "if \<exists>fn. ownConstructor targetObject = Some fn \<and> \<not> isValueDefined fn
        then initializerRejection objectName md targetObject = NullDereference ''name''
        else \<exists>returned. initializerRejection objectName md targetObject
               = InvalidInitializerResult objectName returned (nameof (classType md))"
    for targetObject
  proof (cases "\<exists>fn. ownConstructor targetObject = Some fn \<and> \<not> isValueDefined fn")
    case True
    then obtain fn where f: "ownConstructor targetObject = Some fn" "\<not> isValueDefined fn"
      by blast
    then have "truthy targetObject" by (cases targetObject) simp_all
    then show ?thesis
      using True nameOfConstructor_shadowed [OF f] by (simp add: initializerRejection_def)
  next
    case False
    show ?thesis
    proof (cases "truthy targetObject")
      case nt: False
      then show ?thesis using False by (simp add: initializerRejection_def)
    next
      case t: True
      then have dv: "isValueDefined targetObject"
        by (cases targetObject) (simp_all add: isValueDefined_def)
      show ?thesis
      proof (cases "nameOfConstructor targetObject")
        case (Inr returned)
        then show ?thesis using t False by (simp add: initializerRejection_def)
      next
        case (Inl e)
        then show ?thesis using False nameOfConstructor_raises [OF Inl dv] by simp
      qed
    qed
  qed
  ultimately show ?thesis by blast
qed

text \<open>
  The theorem at an initializer of Animal that returns a Car: InvalidInitializerResult is
  reported and the object converts to undefined.
\<close>

theorem initializer_result_validation_witness:
  "typeofObject plainRex \<and> plainRex \<noteq> VNull \<and>
   resolveSelfType newDeserializer (zooRuntime (Some carInitializer) None) plainRex
     (scopeOf animalClass)
     = Inr (animalClass,
            Some (classMetadata animalClass [dogClass, carClass] (Some carInitializer) None),
            zooKnownTypes) \<and>
   explicitlyMarked
     (Some (classMetadata animalClass [dogClass, carClass] (Some carInitializer) None))
     = Some (classMetadata animalClass [dogClass, carClass] (Some carInitializer) None) \<and>
   convertDataMembers newDeserializer (zooRuntime (Some carInitializer) None) plainRex
     (classMetadata animalClass [dogClass, carClass] (Some carInitializer) None) zooKnownTypes
     = (Inr [(''name'', VStr ''Rex'')], []) \<and>
   initializerCallback (classMetadata animalClass [dogClass, carClass] (Some carInitializer) None)
     = Some carInitializer \<and>
   convertAsObject newDeserializer (zooRuntime (Some carInitializer) None) plainRex
     (scopeOf animalClass) (Named ''object'') None
     = (Inr VUndefined, [InvalidInitializerResult (Named ''object'') (Some ''Car'') ''Animal''])"
proof -
  have e: "explicitlyMarked
     (Some (classMetadata animalClass [dogClass, carClass] (Some carInitializer) None))
     = Some (classMetadata animalClass [dogClass, carClass] (Some carInitializer) None)"
    by (simp add: explicitlyMarked_def classMetadata_def)
  have i: "initializerCallback
     (classMetadata animalClass [dogClass, carClass] (Some carInitializer) None)
     = Some carInitializer"
    by (simp add: classMetadata_def)
  have o: "typeofObject plainRex" "plainRex \<noteq> VNull"
    by (simp_all add: plainRex_def)
  have c: "classType (classMetadata animalClass [dogClass, carClass] (Some carInitializer) None)
      = animalClass"
    by (simp add: classMetadata_def)
  have n: "\<not> instanceOf (VObj carClass []) animalClass"
    "nameOfConstructor (VObj carClass []) = Inr ''Car''" "nameof animalClass = ''Animal''"
    by (simp_all add: instanceOf_def isSubtypeOf_def nameOfConstructor_def zoo_defs)
  show ?thesis
    using initializer_result_validation [OF o zoo_resolve e zoo_members i,
        of "Named ''object''" None] zoo_resolve [of "Some carInitializer" None]
      zoo_members [of "Some carInitializer" None] e i o c n
    by (simp add: carInitializer_def handlerVerdict_def initializerRejection_def
          newDeserializer_def)
qed

text \<open>
  C1 as stated fails: an initializer of Animal that returns a Dog, a proper subtype, is
  accepted; the Dog is the result and nothing is reported. And an initializer that
  returns an object whose own \<^verbatim>\<open>constructor\<close> is null fails the check with the host's
  TypeError for the report, not with InvalidInitializerResult; and when the error handler
  raises what it is handed, a failed check does not return undefined: the call raises.
\<close>

theorem initializer_subtype_counterexample:
  "convertAsObject newDeserializer
     (zooRuntime (Some dogInitializer) None) plainRex (scopeOf animalClass)
     (Named ''object'') None
   = (Inr (VObj dogClass [(''name'', VStr ''Rex'')]), [])
   \<and> convertAsObject newDeserializer
     (zooRuntime (Some shadowedInitializer) None) plainRex (scopeOf animalClass)
     (Named ''object'') None
   = (Inr VUndefined, [NullDereference ''name''])
   \<and> convertAsObject (newDeserializer\<lparr>errorHandler := Some\<rparr>)
     (zooRuntime (Some carInitializer) None) plainRex (scopeOf animalClass)
     (Named ''object'') None
   = (Inl (InvalidInitializerResult (Named ''object'') (Some ''Car'') ''Animal''),
      [InvalidInitializerResult (Named ''object'') (Some ''Car'') ''Animal''])"
  by code_simp




end
